theory Spec2Isabelle
  imports Main "HOL-Library.AList"
begin

section \<open>Python values used by py2tex\<close>

text \<open>
  Strings are \<^typ>\<open>string\<close>. A backslash cannot be written inside a string literal,
  so the LaTeX commands are assembled from \<open>backslash\<close>; \<open>newline\<close> is the
  one-character string Python writes as a backslash followed by n.
\<close>

definition backslash :: char where
  "backslash = CHR 0x5C"

definition newline :: string where
  "newline = [CHR 0x0A]"

text \<open>\<open>sep.join(xs)\<close> of Python, on a list of strings.\<close>

fun join :: "string \<Rightarrow> string list \<Rightarrow> string" where
  "join sep [] = []"
| "join sep [x] = x"
| "join sep (x # y # ys) = x @ sep @ join sep (y # ys)"

text \<open>\<open>str(i)\<close> on Python's unbounded integers: decimal digits, a minus sign when negative.\<close>

definition digit_char :: "nat \<Rightarrow> char" where
  "digit_char d = ''0123456789'' ! d"

function str_nat :: "nat \<Rightarrow> string" where
  "str_nat n = (if n < 10 then [digit_char n] else str_nat (n div 10) @ [digit_char (n mod 10)])"
  by pat_completeness auto
termination
  by (relation "measure id") auto

definition str_int :: "int \<Rightarrow> string" where
  "str_int i = (if i < 0 then CHR ''-'' # str_nat (nat (- i)) else str_nat (nat i))"

text \<open>
  The values that reach \<open>str(v)\<close> as keyword options: strings, integers, booleans
  and None. \<open>str\<close> of a string is the string itself.
\<close>

datatype pyval = PStr string | PInt int | PBool bool | PNone

fun py_str :: "pyval \<Rightarrow> string" where
  "py_str (PStr s) = s"
| "py_str (PInt i) = str_int i"
| "py_str (PBool b) = (if b then ''True'' else ''False'')"
| "py_str PNone = ''None''"

text \<open>The exceptions the modelled code can raise.\<close>

datatype error = IndexError | TypeError | AttributeError

text \<open>
  A Python dict keeps its keys in insertion order: an association list whose keys are
  distinct. \<open>d[k] = v\<close> is \<^const>\<open>AList.update\<close> (the value is replaced in place, a new
  key goes to the end) and \<open>d.update(other)\<close> stores the entries of \<open>other\<close> one
  after the other.
\<close>

type_synonym 'v dict = "(string \<times> 'v) list"

definition dict_update :: "'v dict \<Rightarrow> 'v dict \<Rightarrow> 'v dict" where
  "dict_update d other = fold (\<lambda>(k, v). AList.update k v) other d"

section \<open>tex\_base.py: TexObject and TexEnvironment\<close>

text \<open>
  An element of \<open>body\<close> is a string or a TexEnvironment. (\<open>build(obj)\<close> returns
  any other object as it is, and \<open>join\<close> then raises TypeError; such bodies are left
  out.) The attributes of a TexEnvironment are those assigned in \<open>TexObject.__init__\<close>
  (name, body, packages) and in \<open>TexEnvironment.__init__\<close> (head, tail, parameters,
  options, kwoptions, label\_pos, label). The tree owns its children, so a build returns
  the environment with its children as the build left them.
\<close>

datatype tex = Text string | Env tex_environment
and tex_environment = TexEnvironment
  (name: string)
  (body: "tex list")
  (packages: "pyval dict dict")
  (head: "string list")
  (tail: "string list")
  (parameters: "string list")
  (options: "string list")
  (kwoptions: "pyval dict")
  (label_pos: string)
  (label: string)

text \<open>
  \<open>TexEnvironment.__init__(env_name, *parameters, options=(), label='', label_pos='top',
  **kwoptions)\<close> starts with \<open>super().__init__(env_name, label=label,
  label_pos=label_pos)\<close>, and \<open>TexObject.__init__(self, obj_name)\<close> accepts no
  keyword: as the file stands the call raises TypeError before any attribute is assigned.
\<close>

definition TexEnvironment_init ::
  "string \<Rightarrow> string list \<Rightarrow> string list \<Rightarrow> string \<Rightarrow> string \<Rightarrow> pyval dict
     \<Rightarrow> error + tex_environment" where
  "TexEnvironment_init env_name params opts lbl lbl_pos kwopts = Inl TypeError"

text \<open>
  The claims are about \<open>build\<close> on an environment that holds its attributes.
  \<open>TexEnvironment_attributes\<close> is the environment that the assignments of the two
  constructors describe, with \<open>options\<close> already a tuple (a string \<open>s\<close> becomes
  \<open>(s,)\<close>).
\<close>

definition TexEnvironment_attributes ::
  "string \<Rightarrow> string list \<Rightarrow> string list \<Rightarrow> string \<Rightarrow> string \<Rightarrow> pyval dict \<Rightarrow> tex_environment" where
  "TexEnvironment_attributes env_name params opts lbl lbl_pos kwopts =
     TexEnvironment env_name [] []
       [backslash # ''begin{'' @ env_name @ ''}'']
       [backslash # ''end{'' @ env_name @ ''}'']
       params opts kwopts lbl_pos lbl"

text \<open>
  \<open>add_text\<close> and \<open>new\<close> append to the body; both are given as the
  environment after the call (\<open>new\<close> itself returns the appended object).
\<close>

definition add_text :: "tex_environment \<Rightarrow> string \<Rightarrow> tex_environment" where
  "add_text e text =
     TexEnvironment (name e) (body e @ [Text text]) (packages e) (head e) (tail e)
       (parameters e) (options e) (kwoptions e) (label_pos e) (label e)"

definition new :: "tex_environment \<Rightarrow> tex_environment \<Rightarrow> tex_environment" where
  "new e obj =
     TexEnvironment (name e) (body e @ [Env obj]) (packages e) (head e) (tail e)
       (parameters e) (options e) (kwoptions e) (label_pos e) (label e)"

text \<open>
  \<open>TexObject.add_package\<close>: \<open>kwoptions.update({o:'' for o in options})\<close>, then
  \<open>self.packages[package] = kwoptions\<close>.
\<close>

definition TexObject_add_package ::
  "tex_environment \<Rightarrow> string \<Rightarrow> string list \<Rightarrow> pyval dict \<Rightarrow> tex_environment" where
  "TexObject_add_package e package opts kwopts =
     TexEnvironment (name e) (body e)
       (AList.update package
          (dict_update kwopts (fold (\<lambda>opt. AList.update opt (PStr [])) opts []))
          (packages e))
       (head e) (tail e) (parameters e) (options e) (kwoptions e) (label_pos e) (label e)"

text \<open>
  The first lines of \<open>TexEnvironment.build\<close>, one definition per statement.
  \<open>head[0] += ...\<close> raises IndexError on an empty list.
\<close>

definition kwoption_text :: "string \<times> pyval \<Rightarrow> string" where
  "kwoption_text kv = join ''='' [fst kv, py_str (snd kv)]"

definition head_options :: "string list \<Rightarrow> pyval dict \<Rightarrow> string list \<Rightarrow> error + string list" where
  "head_options opts kwopts hd0 =
     (if opts \<noteq> [] \<or> kwopts \<noteq> [] then
        (let kw = join '', '' (map kwoption_text kwopts);
             os = join '', '' opts;
             os' = (if kw \<noteq> [] \<and> os \<noteq> [] then os @ '', '' else os)
         in case hd0 of
              [] \<Rightarrow> Inl IndexError
            | h # hs \<Rightarrow> Inr ((h @ ''['' @ os' @ kw @ '']'') # hs))
      else Inr hd0)"

definition head_parameters :: "string list \<Rightarrow> string list \<Rightarrow> error + string list" where
  "head_parameters params hd0 =
     (if params \<noteq> [] then
        (case hd0 of
           [] \<Rightarrow> Inl IndexError
         | h # hs \<Rightarrow> Inr ((h @ ''{'' @ join '', '' params @ ''}'') # hs))
      else Inr hd0)"

definition label_text :: "string \<Rightarrow> string \<Rightarrow> string" where
  "label_text nm lbl = backslash # ''label{'' @ nm @ '':'' @ lbl @ ''}''"

definition place_label ::
  "string \<Rightarrow> string \<Rightarrow> string \<Rightarrow> string list \<Rightarrow> string list \<Rightarrow> string list \<times> string list" where
  "place_label nm lbl lbl_pos hd0 tl0 =
     (if lbl \<noteq> [] then
        (if lbl_pos = ''top'' then (hd0 @ [label_text nm lbl], tl0)
         else (hd0, label_text nm lbl # tl0))
      else (hd0, tl0))"

text \<open>\<open>x or list(self.x)\<close> for the optional arguments \<open>head\<close> and \<open>tail\<close>.\<close>

definition or_list :: "string list option \<Rightarrow> string list \<Rightarrow> string list" where
  "or_list arg dflt = (case arg of None \<Rightarrow> dflt | Some xs \<Rightarrow> if xs = [] then dflt else xs)"

definition assemble :: "string list \<Rightarrow> string \<Rightarrow> string list \<Rightarrow> string" where
  "assemble hd0 body_text tl0 =
     join newline (if body_text \<noteq> [] then hd0 @ [body_text] @ tl0 else hd0 @ tl0)"

text \<open>
  \<open>TexObject.build\<close> is the loop over the body: it returns the list \<open>tex\<close> (joined by
  the caller below, as its last line does), the children as their builds left them, and
  the packages after every \<open>self.packages.update(text_or_obj.packages)\<close>.
  \<open>TexEnvironment.build(head, tail)\<close> returns the text and the environment after the
  build. A child is built by \<open>build(obj)\<close>, that is \<open>obj.build()\<close> with no argument.
\<close>

fun TexObject_build ::
  "tex list \<Rightarrow> pyval dict dict \<Rightarrow> error + (string list \<times> tex list \<times> pyval dict dict)"
and TexEnvironment_build ::
  "tex_environment \<Rightarrow> string list option \<Rightarrow> string list option \<Rightarrow> error + (string \<times> tex_environment)"
where
  "TexObject_build [] pk = Inr ([], [], pk)"
| "TexObject_build (Text s # rest) pk =
     (case TexObject_build rest pk of
        Inl err \<Rightarrow> Inl err
      | Inr (tex, rest', pk') \<Rightarrow> Inr (s # tex, Text s # rest', pk'))"
| "TexObject_build (Env c # rest) pk =
     (case TexEnvironment_build c None None of
        Inl err \<Rightarrow> Inl err
      | Inr (t, c') \<Rightarrow>
          (case TexObject_build rest (dict_update pk (packages c')) of
             Inl err \<Rightarrow> Inl err
           | Inr (tex, rest', pk') \<Rightarrow> Inr (t # tex, Env c' # rest', pk')))"
| "TexEnvironment_build (TexEnvironment nm bd pk hd0 tl0 ps os kw lp lb) head_arg tail_arg =
     (case head_options os kw (or_list head_arg hd0) of
        Inl err \<Rightarrow> Inl err
      | Inr head1 \<Rightarrow>
          (case head_parameters ps head1 of
             Inl err \<Rightarrow> Inl err
           | Inr head2 \<Rightarrow>
               (case place_label nm lb lp head2 (or_list tail_arg tl0) of
                  (head3, tail3) \<Rightarrow>
                    (case TexObject_build bd pk of
                       Inl err \<Rightarrow> Inl err
                     | Inr (tex, bd', pk') \<Rightarrow>
                         Inr (assemble head3 (join newline tex) tail3,
                              TexEnvironment nm bd' pk' hd0 tl0 ps os kw lp lb)))))"

text \<open>
  Two invariants of a tree. \<open>heads_ok\<close>: every \<open>head\<close> is a non-empty list, as
  \<open>__init__\<close> sets it, so that \<open>head[0]\<close> exists. \<open>dicts_ok\<close>: every
  \<open>packages\<close> is a dict, that is, its keys are distinct.
\<close>

fun heads_ok_tex :: "tex \<Rightarrow> bool" and heads_ok :: "tex_environment \<Rightarrow> bool" where
  "heads_ok_tex (Text s) = True"
| "heads_ok_tex (Env c) = heads_ok c"
| "heads_ok (TexEnvironment nm bd pk hd0 tl0 ps os kw lp lb) =
     (hd0 \<noteq> [] \<and> (\<forall>x \<in> set bd. heads_ok_tex x))"

fun dicts_ok_tex :: "tex \<Rightarrow> bool" and dicts_ok :: "tex_environment \<Rightarrow> bool" where
  "dicts_ok_tex (Text s) = True"
| "dicts_ok_tex (Env c) = dicts_ok c"
| "dicts_ok (TexEnvironment nm bd pk hd0 tl0 ps os kw lp lb) =
     (distinct (map fst pk) \<and> (\<forall>x \<in> set bd. dicts_ok_tex x))"

text \<open>The environments among the elements of a body, in body order.\<close>

fun environments :: "tex list \<Rightarrow> tex_environment list" where
  "environments [] = []"
| "environments (Text s # xs) = environments xs"
| "environments (Env c # xs) = c # environments xs"

text \<open>
  A subtree declares a package when some node of it, the root included, has the name as
  a key of its \<open>packages\<close> before any build.
\<close>

fun declares_tex :: "tex \<Rightarrow> string \<Rightarrow> bool"
and declares :: "tex_environment \<Rightarrow> string \<Rightarrow> bool" where
  "declares_tex (Text s) P = False"
| "declares_tex (Env c) P = declares c P"
| "declares (TexEnvironment nm bd pk hd0 tl0 ps os kw lp lb) P =
     (P \<in> set (map fst pk) \<or> (\<exists>x \<in> set bd. declares_tex x P))"

subsection \<open>Example trees\<close>

definition ex_figure :: tex_environment where
  "ex_figure =
     add_text
       (TexEnvironment_attributes ''figure'' [''p'', ''q''] [''h!'', ''t''] ''fig1'' ''top''
          [(''width'', PStr ''5cm'')])
       ''hello''"

definition ex_bottom :: tex_environment where
  "ex_bottom = TexEnvironment_attributes ''table'' [] [] ''tab1'' ''bottom'' []"

definition ex_sole_empty_option :: tex_environment where
  "ex_sole_empty_option =
     TexEnvironment_attributes ''axis'' [] [[]] [] ''top'' [(''width'', PStr ''5cm'')]"

definition ex_child1 :: tex_environment where
  "ex_child1 =
     TexObject_add_package (add_text (TexEnvironment_attributes ''figure'' [] [] [] ''top'' []) ''a'')
       ''geometry'' [''a4paper''] []"

definition ex_child2 :: tex_environment where
  "ex_child2 =
     TexObject_add_package (add_text (TexEnvironment_attributes ''table'' [] [] [] ''top'' []) ''b'')
       ''geometry'' [] [(''margin'', PStr ''1in'')]"

definition ex_parent :: tex_environment where
  "ex_parent = new (new (TexEnvironment_attributes ''section'' [] [] [] ''top'' []) ex_child1) ex_child2"

text \<open>
  A tree of depth two. The first child declares geometry itself (landscape) and holds a
  grandchild that declares it with a4paper; the second child declares nothing itself and
  holds a grandchild that declares geometry with margin=1in.
\<close>

definition ex_leafA :: tex_environment where
  "ex_leafA =
     TexObject_add_package (TexEnvironment_attributes ''tabular'' [] [] [] ''top'' [])
       ''geometry'' [''a4paper''] []"

definition ex_midA :: tex_environment where
  "ex_midA =
     new (TexObject_add_package (TexEnvironment_attributes ''table'' [] [] [] ''top'' [])
            ''geometry'' [''landscape''] [])
       ex_leafA"

definition ex_leafB :: tex_environment where
  "ex_leafB =
     TexObject_add_package (TexEnvironment_attributes ''axis'' [] [] [] ''top'' [])
       ''geometry'' [] [(''margin'', PStr ''1in'')]"

definition ex_midB :: tex_environment where
  "ex_midB = new (TexEnvironment_attributes ''figure'' [] [] [] ''top'' []) ex_leafB"

definition ex_deep :: tex_environment where
  "ex_deep =
     add_text
       (new (new (TexEnvironment_attributes ''section'' [] [] [] ''top'' []) ex_midA) ex_midB)
       ''closing words''"

section \<open>document.py: TexEnvironment, Document, Table and Tabular\<close>

text \<open>
  A cell of the grid of a Tabular. The type \<open>'f\<close> of the floats and the function
  \<open>fmt\<close>, Python's \<open>format(value, float_format)\<close> on a float, are parameters of
  the model; \<open>float_format\<close> is a valid format for floats, as the docstring of
  \<open>Tabular.__init__\<close> asks.
\<close>

datatype 'f cell = CFloat 'f | CInt int | CStr string | CBool bool | CNone

text \<open>The two branches on \<open>isinstance(value, float)\<close> in \<open>Tabular.build\<close>.\<close>

fun format_cell :: "(string \<Rightarrow> 'f \<Rightarrow> string) \<Rightarrow> string \<Rightarrow> 'f cell \<Rightarrow> string" where
  "format_cell fmt ff (CFloat x) = fmt ff x"
| "format_cell fmt ff (CInt i) = str_int i"
| "format_cell fmt ff (CStr s) = s"
| "format_cell fmt ff (CBool b) = (if b then ''True'' else ''False'')"
| "format_cell fmt ff CNone = ''None''"

text \<open>
  \<open>slice(start, stop).indices(len)\<close> of Python for the step 1: a negative index counts
  from the end and is clipped at 0, another one is clipped at \<open>len\<close>, and None is the
  bound itself.
\<close>

definition slice_index :: "int option \<Rightarrow> int \<Rightarrow> int \<Rightarrow> int" where
  "slice_index idx dflt len =
     (case idx of
        None \<Rightarrow> dflt
      | Some i \<Rightarrow>
          (if i < 0 then (if i + len < 0 then 0 else i + len)
           else (if i > len then len else i)))"

definition slice_indices :: "int option \<Rightarrow> int option \<Rightarrow> int \<Rightarrow> int \<times> int" where
  "slice_indices start stop len = (slice_index start 0 len, slice_index stop len len)"

text \<open>
  The attributes that \<open>Tabular.__init__\<close> adds: \<open>shape\<close> (which is also
  \<open>data.shape\<close>), \<open>float_format\<close>, the grid \<open>data\<close> and the dict \<open>rules\<close>
  from a row number to \<open>(col_start, col_end, trim)\<close>.
\<close>

record 'f tabular =
  shape :: "nat \<times> nat"
  float_format :: string
  data :: "'f cell list list"
  rules :: "(int \<times> int option \<times> int option \<times> string) list"

text \<open>\<open>trim_right\<close> and \<open>trim_left\<close> of \<open>add_rule\<close> are a bool or a string.\<close>

datatype trim = TrimBool bool | TrimStr string

fun trim_text :: "char \<Rightarrow> trim \<Rightarrow> string" where
  "trim_text letter (TrimBool b) = (if b then [letter] else [])"
| "trim_text letter (TrimStr s) = (if s \<noteq> [] then [letter] else []) @ ''{'' @ s @ ''}''"

definition add_rule ::
  "'f tabular \<Rightarrow> int \<Rightarrow> int option \<Rightarrow> int option \<Rightarrow> trim \<Rightarrow> trim \<Rightarrow> 'f tabular" where
  "add_rule td row col_start col_end trim_right trim_left =
     td\<lparr>rules := AList.update row
            (col_start, col_end, trim_text CHR ''r'' trim_right @ trim_text CHR ''l'' trim_left)
            (rules td)\<rparr>"

text \<open>\<open>Tabular.build_rule(start, end, trim)\<close>; \<open>ncols\<close> is \<open>self.shape[1]\<close>.\<close>

definition build_rule :: "nat \<Rightarrow> int option \<Rightarrow> int option \<Rightarrow> string \<Rightarrow> string" where
  "build_rule ncols start stop trim =
     (if start = None \<and> stop = None \<and> trim = [] then backslash # ''midrule''
      else
        (case slice_indices start stop (int ncols) of
           (s, e) \<Rightarrow>
             backslash # ''cmidrule''
               @ (if trim \<noteq> [] then ''('' @ trim @ '')'' else [])
               @ ''{'' @ str_int (s + 1) @ ''-'' @ str_int e @ ''}''))"

text \<open>
  The class of an environment decides which \<open>build\<close> a call \<open>line.build()\<close> runs.
  \<open>body\<close> is a list of strings and environments until \<open>build\<close> replaces it by the
  joined string; \<open>head\<close> and \<open>tail\<close> are strings here.
\<close>

datatype 'f cls = TexEnvironment_cls | Table_cls | Tabular_cls "'f tabular"

datatype 'f line = TextLine string | EnvLine "'f environment"
and 'f environment = Environment
  (env_name: string)
  (env_body: "'f env_body")
  (env_head: string)
  (env_tail: string)
  (env_cls: "'f cls")
and 'f env_body = Items "'f line list" | Built string

text \<open>The number of environments below a node; the builds recurse along it.\<close>

fun weight_line :: "'f line \<Rightarrow> nat"
and weight_env :: "'f environment \<Rightarrow> nat"
and weight_body :: "'f env_body \<Rightarrow> nat" where
  "weight_line (TextLine s) = 0"
| "weight_line (EnvLine c) = Suc (weight_env c)"
| "weight_env (Environment n b h t c) = weight_body b"
| "weight_body (Items ls) = sum_list (map weight_line ls)"
| "weight_body (Built s) = 0"

text \<open>The strings of a list that holds only strings; \<open>join\<close> raises TypeError otherwise.\<close>

fun texts :: "'f line list \<Rightarrow> string list option" where
  "texts [] = Some []"
| "texts (TextLine s # ls) = (case texts ls of None \<Rightarrow> None | Some ss \<Rightarrow> Some (s # ss))"
| "texts (EnvLine c # ls) = None"

text \<open>
  The second loop of \<open>Tabular.build\<close>: for every row its cells joined by \<open>' & '\<close>
  and two backslashes, then the rule registered for the row number, if any.
\<close>

definition table_lines :: "'f tabular \<Rightarrow> string list list \<Rightarrow> string list" where
  "table_lines td entries =
     concat (map (\<lambda>(i, row).
        (join '' & '' row @ [backslash, backslash])
          # (case map_of (rules td) (int i) of
               None \<Rightarrow> []
             | Some (start, stop, trim) \<Rightarrow> [build_rule (snd (shape td)) start stop trim]))
       (enumerate 0 entries))"

text \<open>
  \<open>Tabular.build\<close> up to its last line: head and tail are extended, every cell of
  \<open>data\<close> is overwritten by its string, and the rows are appended to \<open>body\<close>.
  \<open>self.body.append\<close> raises AttributeError when \<open>body\<close> is already a string.
\<close>

definition Tabular_prepare ::
  "(string \<Rightarrow> 'f \<Rightarrow> string) \<Rightarrow> 'f environment \<Rightarrow> 'f tabular \<Rightarrow> 'f environment \<times> error option" where
  "Tabular_prepare fmt e td =
     (let col = snd (shape td);
          head' = env_head e @ ''{'' @ replicate col CHR ''c'' @ ''}'' @ newline @ backslash # ''toprule'';
          tail' = backslash # ''bottomrule'' @ newline @ env_tail e;
          entries = map (map (format_cell fmt (float_format td))) (data td);
          td' = td\<lparr>data := map (map CStr) entries\<rparr>;
          new_lines = table_lines td' entries
      in case env_body e of
           Items ls \<Rightarrow>
             (Environment (env_name e) (Items (ls @ map TextLine new_lines)) head' tail' (Tabular_cls td'), None)
         | Built s \<Rightarrow>
             (Environment (env_name e) (Built s) head' tail' (Tabular_cls td'),
              if new_lines = [] then None else Some AttributeError))"

text \<open>
  The builds of document.py return nothing and work by assignment, so each function
  returns the object as the call leaves it, together with the exception if one was raised.

  \<^item> \<open>build_loop\<close> is the \<open>for\<close> loop of \<open>TexEnvironment.build\<close>: a child
    environment is built and replaced by its \<open>body\<close>. (A build that returns has left a
    string there; the branch for a list is never taken.)
  \<^item> \<open>Doc_TexEnvironment_build\<close> is \<open>TexEnvironment.build\<close>: on a body that is
    already a string the loop changes nothing and \<open>[self.head] + self.body\<close> raises
    TypeError.
  \<^item> \<open>Tabular_build\<close> is \<open>Tabular.build\<close>, which ends with \<open>super().build()\<close>.
  \<^item> \<open>build_env\<close> is the call \<open>line.build()\<close>; \<open>Table.build\<close> is
    \<open>super().build()\<close>.
\<close>

function build_loop ::
    "(string \<Rightarrow> 'f \<Rightarrow> string) \<Rightarrow> 'f line list \<Rightarrow> 'f line list \<times> error option"
and Doc_TexEnvironment_build ::
    "(string \<Rightarrow> 'f \<Rightarrow> string) \<Rightarrow> 'f environment \<Rightarrow> 'f environment \<times> error option"
and Tabular_build ::
    "(string \<Rightarrow> 'f \<Rightarrow> string) \<Rightarrow> 'f environment \<Rightarrow> 'f tabular \<Rightarrow> 'f environment \<times> error option"
and build_env ::
    "(string \<Rightarrow> 'f \<Rightarrow> string) \<Rightarrow> 'f environment \<Rightarrow> 'f environment \<times> error option"
where
  "build_loop fmt [] = ([], None)"
| "build_loop fmt (TextLine s # rest) =
     (case build_loop fmt rest of (rest', r) \<Rightarrow> (TextLine s # rest', r))"
| "build_loop fmt (EnvLine c # rest) =
     (case build_env fmt c of
        (c', Some err) \<Rightarrow> (EnvLine c' # rest, Some err)
      | (c', None) \<Rightarrow>
          (case env_body c' of
             Built t \<Rightarrow> (case build_loop fmt rest of (rest', r) \<Rightarrow> (TextLine t # rest', r))
           | Items ls \<Rightarrow> (EnvLine c' # rest, Some TypeError)))"
| "Doc_TexEnvironment_build fmt (Environment n b h t c) =
     (case b of
        Built s \<Rightarrow> (Environment n (Built s) h t c, Some TypeError)
      | Items ls \<Rightarrow>
          (case build_loop fmt ls of
             (ls', Some err) \<Rightarrow> (Environment n (Items ls') h t c, Some err)
           | (ls', None) \<Rightarrow>
               (case texts ls' of
                  None \<Rightarrow> (Environment n (Items (TextLine h # ls' @ [TextLine t])) h t c, Some TypeError)
                | Some ss \<Rightarrow> (Environment n (Built (join newline (h # ss @ [t]))) h t c, None))))"
| "Tabular_build fmt e td =
     (case Tabular_prepare fmt e td of
        (e1, Some err) \<Rightarrow> (e1, Some err)
      | (e1, None) \<Rightarrow> Doc_TexEnvironment_build fmt e1)"
| "build_env fmt e =
     (case env_cls e of
        Tabular_cls td \<Rightarrow> Tabular_build fmt e td
      | Table_cls \<Rightarrow> Doc_TexEnvironment_build fmt e
      | TexEnvironment_cls \<Rightarrow> Doc_TexEnvironment_build fmt e)"
  by pat_completeness auto
termination
proof -
  have texts_weight: "\<And>ss. sum_list (map (weight_line :: 'f line \<Rightarrow> nat) (map TextLine ss)) = 0"
    by (simp add: comp_def)
  have prepare_weight: "\<And>fmt e td e1 r.
      Tabular_prepare fmt e td = (e1 :: 'f environment, r) \<Longrightarrow> weight_env e1 = weight_env e"
  proof -
    fix fmt e td r and e1 :: "'f environment"
    assume "Tabular_prepare fmt e td = (e1, r)"
    then show "weight_env e1 = weight_env e"
      by (cases e) (auto simp: Tabular_prepare_def Let_def texts_weight split: env_body.splits)
  qed
  show ?thesis
    by (relation "measures
      [case_sum
         (case_sum (\<lambda>(fmt, ls). sum_list (map weight_line ls)) (\<lambda>(fmt, e). weight_env e))
         (case_sum (\<lambda>(fmt, e, td). weight_env e) (\<lambda>(fmt, e). weight_env e)),
       case_sum
         (case_sum (\<lambda>(fmt, ls). 0) (\<lambda>(fmt, e). 1))
         (case_sum (\<lambda>(fmt, e, td). 2) (\<lambda>(fmt, e). 3)),
       case_sum
         (case_sum (\<lambda>(fmt, ls). length ls) (\<lambda>x. 0))
         (\<lambda>x. 0)]")
      (auto dest: prepare_weight [OF sym])
qed

text \<open>A tree on which no \<open>build\<close> has run yet: every body is still a list.\<close>

fun fresh_line :: "'f line \<Rightarrow> bool"
and fresh_env :: "'f environment \<Rightarrow> bool"
and fresh_body :: "'f env_body \<Rightarrow> bool" where
  "fresh_line (TextLine s) = True"
| "fresh_line (EnvLine c) = fresh_env c"
| "fresh_env (Environment n b h t c) = fresh_body b"
| "fresh_body (Items ls) = (\<forall>l \<in> set ls. fresh_line l)"
| "fresh_body (Built s) = False"

text \<open>
  A Document: the attributes it inherits from TexEnvironment (\<open>doc_env\<close>), \<open>header\<close>
  (a list of lines until \<open>build\<close> joins it), \<open>packages\<close> (package name to option
  string), \<open>margins\<close>, \<open>filename\<close>, and \<open>saved\<close>, the text that
  \<open>TexFile.save\<close> last wrote to the file. Running pdflatex on the file is outside the
  model.
\<close>

datatype header = HeaderLines "string list" | HeaderText string

record 'f document =
  doc_env :: "'f environment"
  header :: header
  doc_packages :: "string dict"
  margins :: "string dict"
  filename :: string
  saved :: "string option"

definition key_value :: "string \<times> string \<Rightarrow> string" where
  "key_value kv = fst kv @ ''='' @ snd kv"

text \<open>\<open>Document.set_margins(margins, top=None, bottom=None)\<close>.\<close>

definition Document_set_margins ::
  "'f document \<Rightarrow> string \<Rightarrow> string option \<Rightarrow> string option \<Rightarrow> 'f document" where
  "Document_set_margins d m top_arg bottom_arg =
     (let m0 = [(''top'', m), (''bottom'', m), (''margin'', m)];
          m1 = (case top_arg of None \<Rightarrow> m0 | Some t \<Rightarrow> AList.update ''top'' t m0);
          m2 = (case bottom_arg of None \<Rightarrow> m1 | Some b \<Rightarrow> AList.update ''bottom'' b m1)
      in d\<lparr>margins := m2,
            doc_packages := AList.update ''geometry'' (join '','' (map key_value m2)) (doc_packages d)\<rparr>)"

text \<open>
  \<open>Document.add_package(package, *options, **kwoptions)\<close>: \<open>options\<close> is turned into
  a string first, so \<open>options.append\<close> in the loop over \<open>kwoptions\<close> raises
  AttributeError at the first keyword option, before anything is stored.
\<close>

definition Document_add_package ::
  "'f document \<Rightarrow> string \<Rightarrow> string list \<Rightarrow> pyval dict \<Rightarrow> 'f document \<times> error option" where
  "Document_add_package d package opts kwopts =
     (let opts' = (if opts \<noteq> [] then ''['' @ join '','' opts @ '']'' else [])
      in if kwopts \<noteq> [] then (d, Some AttributeError)
         else (d\<lparr>doc_packages := AList.update package opts' (doc_packages d)\<rparr>, None))"

text \<open>\<open>Document.__init__(filename, doc_type, *options, **kwoptions)\<close>.\<close>

definition Document_init ::
  "string \<Rightarrow> string \<Rightarrow> string list \<Rightarrow> pyval dict \<Rightarrow> 'f document" where
  "Document_init fname doc_type opts kwopts =
     Document_set_margins
       \<lparr>doc_env = Environment ''document'' (Items [])
                    (backslash # ''begin{document}'') (backslash # ''end{document}'')
                    TexEnvironment_cls,
        header = HeaderLines
          [backslash # ''documentclass''
             @ ''['' @ join '','' (opts @ map (\<lambda>(k, v). k @ ''='' @ py_str v) kwopts) @ '']''
             @ ''{'' @ doc_type @ ''}''],
        doc_packages = [(''inputenc'', ''utf8''), (''geometry'', [])],
        margins = [],
        filename = fname,
        saved = None\<rparr>
       ''2.5cm'' None None"




subsection \<open>Example documents\<close>

text \<open>
  An instance of the two parameters, for the examples only. A float is a finite value
  \<open>Finite neg m e\<close>, standing for \<open>m * 2 ^ e\<close> with a minus sign when \<open>neg\<close> holds
  (so that the negative zero exists), an infinity or a NaN. \<open>fixed_point n\<close> is the
  presentation type \<open>f\<close> of Python with precision \<open>n\<close>: the exact value rounded half
  to even to \<open>n\<close> decimals, the sign kept, and \<open>inf\<close> and \<open>nan\<close> written out.
\<close>

datatype pyfloat = Finite bool nat int | Infinite bool | NaN

fun fixed_point :: "nat \<Rightarrow> pyfloat \<Rightarrow> string" where
  "fixed_point n (Finite neg m e) =
     (let num = (if 0 \<le> e then m * 2 ^ nat e * 10 ^ n else m * 10 ^ n);
          den = (if 0 \<le> e then 1 else 2 ^ nat (- e));
          q = num div den;
          r = num mod den;
          k = (if den < 2 * r \<or> (2 * r = den \<and> odd q) then q + 1 else q);
          frac = str_nat (k mod 10 ^ n)
      in (if neg then ''-'' else [])
           @ str_nat (k div 10 ^ n)
           @ (if n = 0 then [] else ''.'' @ replicate (n - length frac) CHR ''0'' @ frac))"
| "fixed_point n (Infinite neg) = (if neg then ''-inf'' else ''inf'')"
| "fixed_point n NaN = ''nan''"

text \<open>
  The format specifications this instance reads: \<open>f\<close>, with the default precision 6,
  and a dot, one or more digits and \<open>f\<close>. \<open>ex_format\<close> is Python's \<open>format\<close> on
  these specifications only; it is not a model of the other ones (widths, the types e,
  g and so on), for which it returns the empty string, and the examples do not use them.
\<close>

definition digit_value :: "char \<Rightarrow> nat" where
  "digit_value c = length (takeWhile (\<lambda>d. d \<noteq> c) ''0123456789'')"

definition precision_of :: "string \<Rightarrow> nat option" where
  "precision_of spec =
     (if spec = ''f'' then Some 6
      else if 3 \<le> length spec \<and> hd spec = CHR ''.'' \<and> last spec = CHR ''f''
              \<and> (\<forall>c \<in> set (butlast (tl spec)). c \<in> set ''0123456789'')
      then Some (fold (\<lambda>c n. 10 * n + digit_value c) (butlast (tl spec)) 0)
      else None)"

definition ex_format :: "string \<Rightarrow> pyfloat \<Rightarrow> string" where
  "ex_format spec x = (case precision_of spec of Some n \<Rightarrow> fixed_point n x | None \<Rightarrow> [])"

definition ex_section :: "pyfloat environment" where
  "ex_section =
     Environment ''section'' (Items [TextLine ''Hello''])
       (backslash # ''begin{section}{Intro}'') (backslash # ''end{section}'')
       TexEnvironment_cls"

text \<open>The grid \<open>[[1.5, 2], ['A', 'B']]\<close> with the float format \<open>.2f\<close>.\<close>

definition ex_grid :: "pyfloat tabular" where
  "ex_grid =
     \<lparr>shape = (2, 2), float_format = ''.2f'',
      data = [[CFloat (Finite False 3 (- 1)), CInt 2], [CStr ''A'', CStr ''B'']],
      rules = []\<rparr>"

text \<open>
  A grid of one row and four columns with a cell left as \<open>np.empty\<close> made it (None),
  a bool, a negative integer and a float, a text added to the body beforehand, and the
  rule \<open>add_rule(0, 1, 3)\<close>.
\<close>

definition ex_grid_ruled :: "pyfloat tabular" where
  "ex_grid_ruled =
     add_rule
       \<lparr>shape = (1, 4), float_format = ''.1f'',
        data = [[CNone, CBool True, CInt (- 7), CFloat (Finite True 5 (- 2))]],
        rules = []\<rparr>
       0 (Some 1) (Some 3) (TrimBool False) (TrimBool False)"

definition ex_tabular_ruled :: "pyfloat environment" where
  "ex_tabular_ruled =
     Environment ''tabular'' (Items [TextLine ''% grid''])
       (backslash # ''begin{tabular}'') (backslash # ''end{tabular}'')
       (Tabular_cls ex_grid_ruled)"

definition ex_tabular :: "pyfloat environment" where
  "ex_tabular =
     Environment ''tabular'' (Items [])
       (backslash # ''begin{tabular}'') (backslash # ''end{tabular}'')
       (Tabular_cls ex_grid)"

definition ex_document :: "pyfloat document" where
  "ex_document =
     (Document_init ''Test'' ''article'' [''12pt''] [])
       \<lparr>doc_env := Environment ''document'' (Items [EnvLine ex_section])
            (backslash # ''begin{document}'') (backslash # ''end{document}'')
            TexEnvironment_cls\<rparr>"


section \<open>Lemmas on tex\_base.py\<close>

lemma join_Cons: "join sep (x # xs) = (if xs = [] then x else x @ sep @ join sep xs)"
  by (cases xs) simp_all

lemma join_append:
  "xs \<noteq> [] \<Longrightarrow> ys \<noteq> [] \<Longrightarrow> join sep (xs @ ys) = join sep xs @ sep @ join sep ys"
  by (induction sep xs rule: join.induct) (simp_all add: join_Cons)

lemma join_eq_Nil:
  "sep \<noteq> [] \<Longrightarrow> join sep xs = [] \<longleftrightarrow> xs = [] \<or> xs = [[]]"
  by (induction sep xs rule: join.induct) simp_all

lemma kwoption_text_nonempty: "kwoption_text kv \<noteq> []"
  by (simp add: kwoption_text_def)

lemma join_kwoptions_eq_Nil: "join '', '' (map kwoption_text kw) = [] \<longleftrightarrow> kw = []"
  by (cases kw) (simp_all add: join_Cons kwoption_text_nonempty)

lemma TexEnvironment_build_unfold:
  "TexEnvironment_build e head_arg tail_arg =
     (case head_options (options e) (kwoptions e) (or_list head_arg (head e)) of
        Inl err \<Rightarrow> Inl err
      | Inr head1 \<Rightarrow>
          (case head_parameters (parameters e) head1 of
             Inl err \<Rightarrow> Inl err
           | Inr head2 \<Rightarrow>
               (case place_label (name e) (label e) (label_pos e) head2 (or_list tail_arg (tail e)) of
                  (head3, tail3) \<Rightarrow>
                    (case TexObject_build (body e) (packages e) of
                       Inl err \<Rightarrow> Inl err
                     | Inr (tex, bd', pk') \<Rightarrow>
                         Inr (assemble head3 (join newline tex) tail3,
                              TexEnvironment (name e) bd' pk' (head e) (tail e) (parameters e)
                                (options e) (kwoptions e) (label_pos e) (label e))))))"
  by (cases e) (simp split: sum.splits prod.splits)

lemma TexEnvironment_build_lines:
  assumes "head_options (options e) (kwoptions e) (head e) = Inr head1"
      and "head_parameters (parameters e) head1 = Inr head2"
      and "place_label (name e) (label e) (label_pos e) head2 (tail e) = (head3, tail3)"
      and "TexObject_build (body e) (packages e) = Inr (tex, bd', pk')"
  shows "TexEnvironment_build e None None =
           Inr (assemble head3 (join newline tex) tail3,
                TexEnvironment (name e) bd' pk' (head e) (tail e) (parameters e)
                  (options e) (kwoptions e) (label_pos e) (label e))"
  using assms by (simp add: TexEnvironment_build_unfold or_list_def)

lemma head_options_Cons:
  "head_options os kw (h # hs) =
     Inr ((h @ (if os = [] \<and> kw = [] then []
                else ''['' @ join '', '' os
                      @ (if join '', '' os \<noteq> [] \<and> kw \<noteq> [] then '', '' else [])
                      @ join '', '' (map kwoption_text kw) @ '']'')) # hs)"
  by (simp add: head_options_def Let_def join_kwoptions_eq_Nil)

lemma head_parameters_Cons:
  "head_parameters ps (h # hs) =
     Inr ((h @ (if ps = [] then [] else ''{'' @ join '', '' ps @ ''}'')) # hs)"
  by (simp add: head_parameters_def)

lemma head_options_ok: "hd0 \<noteq> [] \<Longrightarrow> \<exists>h1. head_options os kw hd0 = Inr h1 \<and> h1 \<noteq> []"
  by (cases hd0) (simp_all add: head_options_def Let_def)

lemma head_parameters_ok: "hd0 \<noteq> [] \<Longrightarrow> \<exists>h1. head_parameters ps hd0 = Inr h1 \<and> h1 \<noteq> []"
  by (cases hd0) (simp_all add: head_parameters_def)

lemma or_list_nonempty: "dflt \<noteq> [] \<Longrightarrow> or_list arg dflt \<noteq> []"
  by (simp add: or_list_def split: option.splits)

lemma build_total_aux:
  "(\<forall>x \<in> set bd. heads_ok_tex x) \<longrightarrow> (\<exists>r. TexObject_build bd pk = Inr r)"
  "heads_ok e \<longrightarrow> (\<exists>r. TexEnvironment_build e head_arg tail_arg = Inr r)"
proof (induction bd pk and e head_arg tail_arg rule: TexObject_build_TexEnvironment_build.induct)
  case (1 pk)
  then show ?case by simp
next
  case (2 s rest pk)
  then show ?case by (auto split: sum.splits)
next
  case (3 c rest pk)
  then show ?case by (auto split: sum.splits)
next
  case (4 nm bd pk hd0 tl0 ps os kw lp lb head_arg tail_arg)
  show ?case
  proof
    assume ok: "heads_ok (TexEnvironment nm bd pk hd0 tl0 ps os kw lp lb)"
    then have "or_list head_arg hd0 \<noteq> []" by (simp add: or_list_nonempty)
    then obtain h1 where h1: "head_options os kw (or_list head_arg hd0) = Inr h1" "h1 \<noteq> []"
      using head_options_ok by blast
    then obtain h2 where h2: "head_parameters ps h1 = Inr h2"
      using head_parameters_ok by blast
    obtain h3 t3 where pl: "place_label nm lb lp h2 (or_list tail_arg tl0) = (h3, t3)"
      by (cases "place_label nm lb lp h2 (or_list tail_arg tl0)") simp
    from ok have "\<forall>x \<in> set bd. heads_ok_tex x" by simp
    with "4.IH" [OF h1(1) h2 pl [symmetric]] obtain r where "TexObject_build bd pk = Inr r"
      by blast
    with h1 h2 pl show "\<exists>r. TexEnvironment_build (TexEnvironment nm bd pk hd0 tl0 ps os kw lp lb) head_arg tail_arg = Inr r"
      by (cases r) auto
  qed
qed

lemma rebuild_aux:
  "\<forall>tex bd' pk'. TexObject_build bd pk = Inr (tex, bd', pk') \<longrightarrow>
     (\<forall>pk2. \<exists>bd'' pk3. TexObject_build bd' pk2 = Inr (tex, bd'', pk3))"
  "\<forall>txt e'. TexEnvironment_build e head_arg tail_arg = Inr (txt, e') \<longrightarrow>
     (\<exists>e''. TexEnvironment_build e' head_arg tail_arg = Inr (txt, e''))"
proof (induction bd pk and e head_arg tail_arg rule: TexObject_build_TexEnvironment_build.induct)
  case (1 pk)
  then show ?case by simp
next
  case (2 s rest pk)
  show ?case
  proof (intro allI impI)
    fix tex bd' pk' pk2
    assume b: "TexObject_build (Text s # rest) pk = Inr (tex, bd', pk')"
    then obtain tex0 rest' where r: "TexObject_build rest pk = Inr (tex0, rest', pk')"
      and eq: "tex = s # tex0" "bd' = Text s # rest'"
      by (auto split: sum.splits)
    from "2.IH" r obtain bd'' pk3 where "TexObject_build rest' pk2 = Inr (tex0, bd'', pk3)"
      by blast
    with eq show "\<exists>bd'' pk3. TexObject_build bd' pk2 = Inr (tex, bd'', pk3)" by simp
  qed
next
  case (3 c rest pk)
  show ?case
  proof (intro allI impI)
    fix tex bd' pk' pk2
    assume b: "TexObject_build (Env c # rest) pk = Inr (tex, bd', pk')"
    then obtain t c' tex0 rest' where c: "TexEnvironment_build c None None = Inr (t, c')"
      and r: "TexObject_build rest (dict_update pk (packages c')) = Inr (tex0, rest', pk')"
      and eq: "tex = t # tex0" "bd' = Env c' # rest'"
      by (auto split: sum.splits)
    from "3.IH"(1) c obtain c'' where c2: "TexEnvironment_build c' None None = Inr (t, c'')"
      by blast
    from "3.IH"(2) [OF c refl] r
    obtain bd'' pk3 where "TexObject_build rest' (dict_update pk2 (packages c'')) = Inr (tex0, bd'', pk3)"
      by blast
    with eq c2 show "\<exists>bd'' pk3. TexObject_build bd' pk2 = Inr (tex, bd'', pk3)" by simp
  qed
next
  case (4 nm bd pk hd0 tl0 ps os kw lp lb head_arg tail_arg)
  show ?case
  proof (intro allI impI)
    fix out e'
    assume b: "TexEnvironment_build (TexEnvironment nm bd pk hd0 tl0 ps os kw lp lb) head_arg tail_arg = Inr (out, e')"
    then obtain h1 h2 h3 t3 tex bd' pk' where
      h1: "head_options os kw (or_list head_arg hd0) = Inr h1"
      and h2: "head_parameters ps h1 = Inr h2"
      and pl: "place_label nm lb lp h2 (or_list tail_arg tl0) = (h3, t3)"
      and bb: "TexObject_build bd pk = Inr (tex, bd', pk')"
      and eq: "out = assemble h3 (join newline tex) t3"
              "e' = TexEnvironment nm bd' pk' hd0 tl0 ps os kw lp lb"
      by (auto split: sum.splits prod.splits)
    from "4.IH" [OF h1 h2 pl [symmetric]] bb
    obtain bd'' pk3 where "TexObject_build bd' pk' = Inr (tex, bd'', pk3)" by blast
    with h1 h2 pl eq
    show "\<exists>e''. TexEnvironment_build e' head_arg tail_arg = Inr (out, e'')" by simp
  qed
qed

lemma distinct_dict_update:
  "distinct (map fst d) \<Longrightarrow> distinct (map fst (dict_update d other))"
  unfolding dict_update_def
  by (induction other arbitrary: d) (auto simp: distinct_update)

lemma map_of_dict_update:
  "map_of (dict_update d other) k =
     (case map_of (rev other) k of Some v \<Rightarrow> Some v | None \<Rightarrow> map_of d k)"
  unfolding dict_update_def
proof (induction other arbitrary: d)
  case Nil
  then show ?case by simp
next
  case (Cons p other)
  obtain k' v' where p: "p = (k', v')" by (cases p)
  show ?case
    by (simp add: Cons.IH p update_conv' map_add_def split: option.splits)
qed

lemma map_of_rev_distinct:
  "distinct (map fst xs) \<Longrightarrow> map_of (rev xs) k = map_of xs k"
proof (cases "map_of xs k")
  case None
  then have "k \<notin> fst ` set xs" by (simp add: map_of_eq_None_iff)
  then have "map_of (rev xs) k = None" by (simp add: map_of_eq_None_iff)
  with None show ?thesis by simp
next
  case (Some v)
  assume d: "distinct (map fst xs)"
  from Some have "(k, v) \<in> set (rev xs)" by (simp add: map_of_SomeD)
  moreover from d have "distinct (map fst (rev xs))" by (simp add: rev_map [symmetric])
  ultimately have "map_of (rev xs) k = Some v" by (rule map_of_is_SomeI [rotated])
  with Some show ?thesis by simp
qed

lemma map_of_dict_update_distinct:
  "distinct (map fst other) \<Longrightarrow>
   map_of (dict_update d other) k =
     (case map_of other k of Some v \<Rightarrow> Some v | None \<Rightarrow> map_of d k)"
  by (simp add: map_of_dict_update map_of_rev_distinct)

lemma TexObject_build_packages:
  "TexObject_build bd pk = Inr (tex, bd', pk') \<Longrightarrow>
   pk' = fold (\<lambda>c acc. dict_update acc (packages c)) (environments bd') pk"
proof (induction bd arbitrary: pk tex bd' pk')
  case Nil
  then show ?case by simp
next
  case (Cons x rest)
  show ?case
  proof (cases x)
    case (Text s)
    with Cons.prems obtain tex0 rest' where
      "TexObject_build rest pk = Inr (tex0, rest', pk')" "bd' = Text s # rest'"
      by (auto split: sum.splits)
    with Cons.IH show ?thesis by simp
  next
    case (Env c)
    with Cons.prems obtain c' tex0 rest' where
      "TexObject_build rest (dict_update pk (packages c')) = Inr (tex0, rest', pk')"
      "bd' = Env c' # rest'"
      by (auto split: sum.splits)
    with Cons.IH show ?thesis by simp
  qed
qed

lemma distinct_fold_packages:
  "distinct (map fst pk) \<Longrightarrow>
   distinct (map fst (fold (\<lambda>c acc. dict_update acc (packages c)) cs pk))"
  by (induction cs arbitrary: pk) (simp_all add: distinct_dict_update)

lemma build_dicts_ok_aux:
  "(\<forall>x \<in> set bd. dicts_ok_tex x) \<longrightarrow> distinct (map fst pk) \<longrightarrow>
     (\<forall>tex bd' pk'. TexObject_build bd pk = Inr (tex, bd', pk') \<longrightarrow>
        (\<forall>x \<in> set bd'. dicts_ok_tex x) \<and> distinct (map fst pk'))"
  "dicts_ok e \<longrightarrow>
     (\<forall>out e'. TexEnvironment_build e head_arg tail_arg = Inr (out, e') \<longrightarrow> dicts_ok e')"
proof (induction bd pk and e head_arg tail_arg rule: TexObject_build_TexEnvironment_build.induct)
  case (1 pk)
  then show ?case by simp
next
  case (2 s rest pk)
  show ?case
  proof (intro allI impI)
    fix tex bd' pk'
    assume ok: "\<forall>x \<in> set (Text s # rest). dicts_ok_tex x" and d: "distinct (map fst pk)"
      and b: "TexObject_build (Text s # rest) pk = Inr (tex, bd', pk')"
    from b obtain tex0 rest' where r: "TexObject_build rest pk = Inr (tex0, rest', pk')"
      and eq: "bd' = Text s # rest'"
      by (auto split: sum.splits)
    from ok have ok': "\<forall>x \<in> set rest. dicts_ok_tex x" by simp
    from "2.IH" ok' d r
    have "(\<forall>x \<in> set rest'. dicts_ok_tex x) \<and> distinct (map fst pk')" by blast
    with eq show "(\<forall>x \<in> set bd'. dicts_ok_tex x) \<and> distinct (map fst pk')" by simp
  qed
next
  case (3 c rest pk)
  show ?case
  proof (intro allI impI)
    fix tex bd' pk'
    assume ok: "\<forall>x \<in> set (Env c # rest). dicts_ok_tex x" and d: "distinct (map fst pk)"
      and b: "TexObject_build (Env c # rest) pk = Inr (tex, bd', pk')"
    from b obtain t c' tex0 rest' where c: "TexEnvironment_build c None None = Inr (t, c')"
      and r: "TexObject_build rest (dict_update pk (packages c')) = Inr (tex0, rest', pk')"
      and eq: "bd' = Env c' # rest'"
      by (auto split: sum.splits)
    from ok have okc: "dicts_ok c" and ok': "\<forall>x \<in> set rest. dicts_ok_tex x" by simp_all
    from "3.IH"(1) okc c have c'ok: "dicts_ok c'" by blast
    from d have d': "distinct (map fst (dict_update pk (packages c')))"
      by (rule distinct_dict_update)
    from "3.IH"(2) [OF c refl] ok' d' r
    have "(\<forall>x \<in> set rest'. dicts_ok_tex x) \<and> distinct (map fst pk')" by blast
    with c'ok eq show "(\<forall>x \<in> set bd'. dicts_ok_tex x) \<and> distinct (map fst pk')" by simp
  qed
next
  case (4 nm bd pk hd0 tl0 ps os kw lp lb head_arg tail_arg)
  show ?case
  proof (intro allI impI)
    fix out e'
    assume ok: "dicts_ok (TexEnvironment nm bd pk hd0 tl0 ps os kw lp lb)"
      and b: "TexEnvironment_build (TexEnvironment nm bd pk hd0 tl0 ps os kw lp lb) head_arg tail_arg = Inr (out, e')"
    from b obtain h1 h2 h3 t3 tex bd' pk' where
      h1: "head_options os kw (or_list head_arg hd0) = Inr h1"
      and h2: "head_parameters ps h1 = Inr h2"
      and pl: "place_label nm lb lp h2 (or_list tail_arg tl0) = (h3, t3)"
      and bb: "TexObject_build bd pk = Inr (tex, bd', pk')"
      and eq: "e' = TexEnvironment nm bd' pk' hd0 tl0 ps os kw lp lb"
      by (auto split: sum.splits prod.splits)
    from ok have okb: "\<forall>x \<in> set bd. dicts_ok_tex x" and d: "distinct (map fst pk)" by simp_all
    from "4.IH" [OF h1 h2 pl [symmetric]] okb d bb
    have "(\<forall>x \<in> set bd'. dicts_ok_tex x) \<and> distinct (map fst pk')" by blast
    with eq show "dicts_ok e'" by simp
  qed
qed

lemma dicts_ok_packages: "dicts_ok e \<Longrightarrow> distinct (map fst (packages e))"
  by (cases e) simp

lemma dicts_ok_child: "dicts_ok e \<Longrightarrow> Env c \<in> set (body e) \<Longrightarrow> dicts_ok c"
  by (cases e) auto

lemma one_entry:
  "distinct (map fst xs) \<Longrightarrow> map_of xs k = Some v \<Longrightarrow>
   length (filter (\<lambda>kv. fst kv = k) xs) = 1"
proof (induction xs)
  case Nil
  then show ?case by simp
next
  case (Cons p xs)
  show ?case
  proof (cases "fst p = k")
    case True
    with Cons.prems have "k \<notin> fst ` set xs" by auto
    then have "filter (\<lambda>kv. fst kv = k) xs = []" by (auto simp: filter_empty_conv)
    with True show ?thesis by simp
  next
    case False
    with Cons show ?thesis by (cases p) auto
  qed
qed

lemma kwoption_text_eq: "kwoption_text (k, v) = k @ ''='' @ py_str v"
  by (simp add: kwoption_text_def)

lemma kwoption_text_lambda: "kwoption_text = (\<lambda>(k, v). k @ ''='' @ py_str v)"
  by (rule ext) (simp add: kwoption_text_def split: prod.splits)

lemma join_options_eq_Nil: "join '', '' os = [] \<longleftrightarrow> os = [] \<or> os = [[]]"
  by (rule join_eq_Nil) simp

lemma assemble_first: "\<exists>rest. assemble (x # xs) b tl0 = join newline (x # rest)"
  unfolding assemble_def by (cases "b = []") (simp_all, blast+)

lemma place_label_first: "\<exists>ys tl1. place_label nm lb lp (x # xs) tl0 = (x # ys, tl1)"
  by (simp add: place_label_def)

lemma TexEnvironment_init_raises:
  "TexEnvironment_init nm params opts lbl lbl_pos kwopts = Inl TypeError"
  by (simp add: TexEnvironment_init_def)

lemma build_total:
  "heads_ok e \<Longrightarrow> \<exists>out e'. TexEnvironment_build e None None = Inr (out, e')"
  using build_total_aux(2) [of e None None] by auto

lemma keys_dict_update:
  "fst ` set (dict_update d other) = fst ` set d \<union> fst ` set other"
  unfolding dict_update_def
proof (induction other arbitrary: d)
  case Nil
  then show ?case by simp
next
  case (Cons p other)
  obtain k v where p: "p = (k, v)" by (cases p)
  show ?case by (simp add: Cons.IH p dom_update)
qed

lemma build_declares_aux:
  "\<forall>tex bd' pk'. TexObject_build bd pk = Inr (tex, bd', pk') \<longrightarrow>
     fst ` set pk' = fst ` set pk \<union> {P. \<exists>x \<in> set bd. declares_tex x P}"
  "\<forall>out e'. TexEnvironment_build e head_arg tail_arg = Inr (out, e') \<longrightarrow>
     fst ` set (packages e') = {P. declares e P}"
proof (induction bd pk and e head_arg tail_arg rule: TexObject_build_TexEnvironment_build.induct)
  case (1 pk)
  then show ?case by simp
next
  case (2 s rest pk)
  show ?case
  proof (intro allI impI)
    fix tex bd' pk'
    assume "TexObject_build (Text s # rest) pk = Inr (tex, bd', pk')"
    then obtain tex0 rest' where "TexObject_build rest pk = Inr (tex0, rest', pk')"
      by (auto split: sum.splits)
    with "2.IH"
    have "fst ` set pk' = fst ` set pk \<union> {P. \<exists>x \<in> set rest. declares_tex x P}" by blast
    then show "fst ` set pk' = fst ` set pk \<union> {P. \<exists>x \<in> set (Text s # rest). declares_tex x P}"
      by simp
  qed
next
  case (3 c rest pk)
  show ?case
  proof (intro allI impI)
    fix tex bd' pk'
    assume "TexObject_build (Env c # rest) pk = Inr (tex, bd', pk')"
    then obtain t c' tex0 rest' where c: "TexEnvironment_build c None None = Inr (t, c')"
      and r: "TexObject_build rest (dict_update pk (packages c')) = Inr (tex0, rest', pk')"
      by (auto split: sum.splits)
    from "3.IH"(1) c have kc: "fst ` set (packages c') = {P. declares c P}" by blast
    from "3.IH"(2) [OF c refl] r
    have "fst ` set pk' = fst ` set (dict_update pk (packages c'))
            \<union> {P. \<exists>x \<in> set rest. declares_tex x P}" by blast
    then have "fst ` set pk' = (fst ` set pk \<union> {P. declares c P})
            \<union> {P. \<exists>x \<in> set rest. declares_tex x P}"
      by (simp only: keys_dict_update kc)
    then show "fst ` set pk' = fst ` set pk \<union> {P. \<exists>x \<in> set (Env c # rest). declares_tex x P}"
      by auto
  qed
next
  case (4 nm bd pk hd0 tl0 ps os kw lp lb head_arg tail_arg)
  show ?case
  proof (intro allI impI)
    fix out e'
    assume "TexEnvironment_build (TexEnvironment nm bd pk hd0 tl0 ps os kw lp lb) head_arg tail_arg
              = Inr (out, e')"
    then obtain h1 h2 h3 t3 tex bd' pk' where
      h1: "head_options os kw (or_list head_arg hd0) = Inr h1"
      and h2: "head_parameters ps h1 = Inr h2"
      and pl: "place_label nm lb lp h2 (or_list tail_arg tl0) = (h3, t3)"
      and bb: "TexObject_build bd pk = Inr (tex, bd', pk')"
      and eq: "e' = TexEnvironment nm bd' pk' hd0 tl0 ps os kw lp lb"
      by (auto split: sum.splits prod.splits)
    from "4.IH" [OF h1 h2 pl [symmetric]] bb
    have "fst ` set pk' = fst ` set pk \<union> {P. \<exists>x \<in> set bd. declares_tex x P}" by blast
    with eq show "fst ` set (packages e') =
        {P. declares (TexEnvironment nm bd pk hd0 tl0 ps os kw lp lb) P}"
      by auto
  qed
qed

lemma build_declares:
  assumes "TexEnvironment_build e None None = Inr (out, e')"
  shows "map_of (packages e') P \<noteq> None \<longleftrightarrow> declares e P"
proof -
  from assms have "fst ` set (packages e') = {P. declares e P}"
    using build_declares_aux(2) by blast
  then have "P \<in> fst ` set (packages e') \<longleftrightarrow> declares e P" by blast
  then show ?thesis by (simp add: map_of_eq_None_iff)
qed

lemma TexObject_build_split:
  "TexObject_build (xs @ Env c # zs) pk = Inr (tex, bd', pk') \<Longrightarrow>
   \<exists>tex1 xs' pk1 t c' tex2 zs'.
      TexObject_build xs pk = Inr (tex1, xs', pk1)
    \<and> TexEnvironment_build c None None = Inr (t, c')
    \<and> TexObject_build zs (dict_update pk1 (packages c')) = Inr (tex2, zs', pk')
    \<and> bd' = xs' @ Env c' # zs'"
proof (induction xs arbitrary: pk tex bd')
  case Nil
  then show ?case by (auto split: sum.splits)
next
  case (Cons x xs)
  show ?case
  proof (cases x)
    case (Text s)
    with Cons.prems obtain tex0 rest' where
      r: "TexObject_build (xs @ Env c # zs) pk = Inr (tex0, rest', pk')"
      and eq: "bd' = Text s # rest'"
      by (auto split: sum.splits)
    from Cons.IH [OF r] obtain tex1 xs' pk1 t c' tex2 zs' where
      "TexObject_build xs pk = Inr (tex1, xs', pk1)"
      "TexEnvironment_build c None None = Inr (t, c')"
      "TexObject_build zs (dict_update pk1 (packages c')) = Inr (tex2, zs', pk')"
      "rest' = xs' @ Env c' # zs'"
      by blast
    with Text eq show ?thesis by simp
  next
    case (Env d)
    with Cons.prems obtain td d' tex0 rest' where
      d: "TexEnvironment_build d None None = Inr (td, d')"
      and r: "TexObject_build (xs @ Env c # zs) (dict_update pk (packages d')) = Inr (tex0, rest', pk')"
      and eq: "bd' = Env d' # rest'"
      by (auto split: sum.splits)
    from Cons.IH [OF r] obtain tex1 xs' pk1 t c' tex2 zs' where
      "TexObject_build xs (dict_update pk (packages d')) = Inr (tex1, xs', pk1)"
      "TexEnvironment_build c None None = Inr (t, c')"
      "TexObject_build zs (dict_update pk1 (packages c')) = Inr (tex2, zs', pk')"
      "rest' = xs' @ Env c' # zs'"
      by blast
    with Env d eq show ?thesis by simp
  qed
qed

lemma TexObject_build_environments:
  "TexObject_build bd pk = Inr (tex, bd', pk') \<Longrightarrow> d' \<in> set (environments bd') \<Longrightarrow>
   \<exists>d t. Env d \<in> set bd \<and> TexEnvironment_build d None None = Inr (t, d')"
proof (induction bd arbitrary: pk tex bd')
  case Nil
  then show ?case by simp
next
  case (Cons x rest)
  show ?case
  proof (cases x)
    case (Text s)
    with Cons.prems(1) obtain tex0 rest' where
      r: "TexObject_build rest pk = Inr (tex0, rest', pk')" and eq: "bd' = Text s # rest'"
      by (auto split: sum.splits)
    from Cons.prems(2) eq have "d' \<in> set (environments rest')" by simp
    from Cons.IH [OF r this] show ?thesis by auto
  next
    case (Env c)
    with Cons.prems(1) obtain t c' tex0 rest' where
      c: "TexEnvironment_build c None None = Inr (t, c')"
      and r: "TexObject_build rest (dict_update pk (packages c')) = Inr (tex0, rest', pk')"
      and eq: "bd' = Env c' # rest'"
      by (auto split: sum.splits)
    from Cons.prems(2) eq have "d' = c' \<or> d' \<in> set (environments rest')" by simp
    then show ?thesis
    proof
      assume "d' = c'"
      with c Env show ?thesis by auto
    next
      assume "d' \<in> set (environments rest')"
      from Cons.IH [OF r this] show ?thesis by auto
    qed
  qed
qed

lemma fold_no_key:
  "\<forall>d \<in> set cs. map_of (packages d) P = None \<Longrightarrow>
   map_of (fold (\<lambda>c acc. dict_update acc (packages c)) cs pk) P = map_of pk P"
proof (induction cs arbitrary: pk)
  case Nil
  then show ?case by simp
next
  case (Cons c cs)
  from Cons.prems have "map_of (rev (packages c)) P = None"
    by (simp add: map_of_eq_None_iff)
  then have "map_of (dict_update pk (packages c)) P = map_of pk P"
    by (simp add: map_of_dict_update)
  with Cons show ?case by simp
qed

lemma TexEnvironment_build_body:
  "TexEnvironment_build e None None = Inr (out, e') \<Longrightarrow>
   \<exists>tex. TexObject_build (body e) (packages e) = Inr (tex, body e', packages e')"
  by (auto simp: TexEnvironment_build_unfold split: sum.splits prod.splits)

text \<open>
  After a build, the entry of a name in a node is the entry of its last child whose
  subtree declares the name, as that child's own build leaves it; a node none of whose
  children declares the name keeps its own entry.
\<close>

lemma last_declaring_child:
  assumes ok: "dicts_ok e"
      and b: "TexEnvironment_build e None None = Inr (out, e')"
      and bd: "body e = xs @ Env c # zs"
      and c: "TexEnvironment_build c None None = Inr (t, c')"
      and dc: "declares c P"
      and last: "\<forall>d. Env d \<in> set zs \<longrightarrow> \<not> declares d P"
  shows "map_of (packages e') P = map_of (packages c') P"
proof -
  from b obtain tex where
    bb: "TexObject_build (xs @ Env c # zs) (packages e) = Inr (tex, body e', packages e')"
    using TexEnvironment_build_body bd by metis
  from TexObject_build_split [OF bb] c obtain tex1 xs' pk1 tex2 zs' where
    z: "TexObject_build zs (dict_update pk1 (packages c')) = Inr (tex2, zs', packages e')"
    by auto
  have none: "\<forall>d' \<in> set (environments zs'). map_of (packages d') P = None"
  proof
    fix d' assume "d' \<in> set (environments zs')"
    from TexObject_build_environments [OF z this] obtain d td where
      d: "Env d \<in> set zs" "TexEnvironment_build d None None = Inr (td, d')" by blast
    with last have "\<not> declares d P" by blast
    with build_declares [OF d(2)] show "map_of (packages d') P = None" by blast
  qed
  from ok bd have "dicts_ok c" by (auto intro: dicts_ok_child)
  with c have "dicts_ok c'" using build_dicts_ok_aux(2) by blast
  then have dist: "distinct (map fst (packages c'))" by (rule dicts_ok_packages)
  from build_declares [OF c] dc obtain v where v: "map_of (packages c') P = Some v" by auto
  have "packages e' =
      fold (\<lambda>c acc. dict_update acc (packages c)) (environments zs') (dict_update pk1 (packages c'))"
    by (rule TexObject_build_packages [OF z])
  then have "map_of (packages e') P = map_of (dict_update pk1 (packages c')) P"
    using fold_no_key [OF none] by simp
  also have "\<dots> = Some v" using dist v by (simp add: map_of_dict_update_distinct)
  finally show ?thesis using v by simp
qed

lemma no_declaring_child:
  assumes b: "TexEnvironment_build e None None = Inr (out, e')"
      and none: "\<forall>x \<in> set (body e). \<not> declares_tex x P"
  shows "map_of (packages e') P = map_of (packages e) P"
proof -
  from b obtain tex where
    bb: "TexObject_build (body e) (packages e) = Inr (tex, body e', packages e')"
    using TexEnvironment_build_body by blast
  have n: "\<forall>d' \<in> set (environments (body e')). map_of (packages d') P = None"
  proof
    fix d' assume "d' \<in> set (environments (body e'))"
    from TexObject_build_environments [OF bb this] obtain d td where
      d: "Env d \<in> set (body e)" "TexEnvironment_build d None None = Inr (td, d')" by blast
    with none have "\<not> declares d P" by fastforce
    with build_declares [OF d(2)] show "map_of (packages d') P = None" by blast
  qed
  have "packages e' =
      fold (\<lambda>c acc. dict_update acc (packages c)) (environments (body e')) (packages e)"
    by (rule TexObject_build_packages [OF bb])
  then show ?thesis using fold_no_key [OF n] by simp
qed

section \<open>Claims on tex\_base.py\<close>

text \<open>
  Claim C2. Let two children \<open>c1\<close> and \<open>c2\<close> of an environment, \<open>c1\<close> before
  \<open>c2\<close>, be roots of subtrees that each declare a package \<open>P\<close>, let the option sets
  that the two subtrees carry for \<open>P\<close> once built differ, and let no child after
  \<open>c2\<close> declare \<open>P\<close> in its subtree. Then after \<open>build\<close> the packages of the
  environment hold exactly one entry for \<open>P\<close>, and its option set is the one of
  \<open>c2\<close>, the child merged last, not the one of \<open>c1\<close> and not a union. That option
  set is the own declaration of \<open>c2\<close> when nothing below \<open>c2\<close> declares \<open>P\<close>, and
  otherwise the one of the last child of \<open>c2\<close> whose subtree declares \<open>P\<close>: a
  declaration made at any depth reaches the root.
\<close>

theorem last_merged_package_wins:
  assumes "dicts_ok e"
      and "TexEnvironment_build e None None = Inr (out, e')"
      and "body e = xs @ Env c1 # ys @ Env c2 # zs"
      and "declares c1 P"
      and "declares c2 P"
      and "TexEnvironment_build c1 None None = Inr (t1, c1')"
      and "TexEnvironment_build c2 None None = Inr (t2, c2')"
      and "map_of (packages c1') P \<noteq> map_of (packages c2') P"
      and "\<forall>d. Env d \<in> set zs \<longrightarrow> \<not> declares d P"
  shows "(\<exists>o2. map_of (packages e') P = Some o2 \<and> map_of (packages c2') P = Some o2)
       \<and> map_of (packages e') P \<noteq> map_of (packages c1') P
       \<and> length (filter (\<lambda>kv. fst kv = P) (packages e')) = 1
       \<and> ((\<forall>x \<in> set (body c2). \<not> declares_tex x P) \<longrightarrow>
            map_of (packages e') P = map_of (packages c2) P)
       \<and> (\<forall>us g vs tg g'.
             body c2 = us @ Env g # vs \<and> declares g P
             \<and> (\<forall>d. Env d \<in> set vs \<longrightarrow> \<not> declares d P)
             \<and> TexEnvironment_build g None None = Inr (tg, g')
             \<longrightarrow> map_of (packages e') P = map_of (packages g') P)"
proof -
  have bd: "body e = (xs @ Env c1 # ys) @ Env c2 # zs" by (simp add: assms(3))
  have eq: "map_of (packages e') P = map_of (packages c2') P"
    by (rule last_declaring_child [OF assms(1,2) bd assms(7,5,9)])
  from build_declares [OF assms(7)] assms(5)
  obtain o2 where o2: "map_of (packages c2') P = Some o2" by auto
  from assms(1,2) have "dicts_ok e'" using build_dicts_ok_aux(2) by blast
  then have "distinct (map fst (packages e'))" by (rule dicts_ok_packages)
  with eq o2 have one: "length (filter (\<lambda>kv. fst kv = P) (packages e')) = 1"
    by (simp add: one_entry)
  from assms(1) bd have ok2: "dicts_ok c2" by (auto intro: dicts_ok_child)
  have own: "(\<forall>x \<in> set (body c2). \<not> declares_tex x P) \<longrightarrow>
      map_of (packages e') P = map_of (packages c2) P"
    using no_declaring_child [OF assms(7)] eq by simp
  have deep: "\<forall>us g vs tg g'.
      body c2 = us @ Env g # vs \<and> declares g P
      \<and> (\<forall>d. Env d \<in> set vs \<longrightarrow> \<not> declares d P)
      \<and> TexEnvironment_build g None None = Inr (tg, g')
      \<longrightarrow> map_of (packages e') P = map_of (packages g') P"
    using last_declaring_child [OF ok2 assms(7)] eq by metis
  from eq o2 assms(8) one own deep show ?thesis by simp
qed

text \<open>
  The witness: in \<open>ex_deep\<close> the first child declares geometry with landscape and its
  grandchild overwrites that with a4paper; the second child declares nothing itself and
  its grandchild declares geometry with margin=1in, which is the single entry the root
  ends with.
\<close>

theorem last_merged_package_wins_witness:
  "dicts_ok ex_deep
   \<and> body ex_deep = [] @ Env ex_midA # [] @ Env ex_midB # [Text ''closing words'']
   \<and> declares ex_midA ''geometry'' \<and> declares ex_midB ''geometry''
   \<and> map_of (packages ex_midB) ''geometry'' = None
   \<and> body ex_midB = [] @ Env ex_leafB # []
   \<and> map_of (packages ex_leafB) ''geometry'' = Some [(''margin'', PStr ''1in'')]
   \<and> (\<exists>out e' t1 c1' t2 c2'.
         TexEnvironment_build ex_deep None None = Inr (out, e')
       \<and> TexEnvironment_build ex_midA None None = Inr (t1, c1')
       \<and> TexEnvironment_build ex_midB None None = Inr (t2, c2')
       \<and> map_of (packages c1') ''geometry'' = Some [(''a4paper'', PStr [])]
       \<and> map_of (packages c2') ''geometry'' = Some [(''margin'', PStr ''1in'')]
       \<and> map_of (packages e') ''geometry'' = Some [(''margin'', PStr ''1in'')]
       \<and> length (filter (\<lambda>kv. fst kv = ''geometry'') (packages e')) = 1)"
proof -
  have ok: "dicts_ok ex_deep" by code_simp
  have bd: "body ex_deep = [] @ Env ex_midA # [] @ Env ex_midB # [Text ''closing words'']"
    by code_simp
  have d1: "declares ex_midA ''geometry''" by code_simp
  have d2: "declares ex_midB ''geometry''" by code_simp
  have own: "map_of (packages ex_midB) ''geometry'' = None" by code_simp
  have bb: "body ex_midB = [] @ Env ex_leafB # []" by code_simp
  have lf: "map_of (packages ex_leafB) ''geometry'' = Some [(''margin'', PStr ''1in'')]"
    by code_simp
  have "heads_ok ex_deep" by code_simp
  then obtain out e' where b: "TexEnvironment_build ex_deep None None = Inr (out, e')"
    using build_total by blast
  have "heads_ok ex_midA" by code_simp
  then obtain t1 c1' where b1: "TexEnvironment_build ex_midA None None = Inr (t1, c1')"
    using build_total by blast
  have "heads_ok ex_midB" by code_simp
  then obtain t2 c2' where b2: "TexEnvironment_build ex_midB None None = Inr (t2, c2')"
    using build_total by blast
  have "map_sum id (\<lambda>r. map_of (packages (snd r)) ''geometry'')
          (TexEnvironment_build ex_midA None None) = Inr (Some [(''a4paper'', PStr [])])"
    by code_simp
  with b1 have p1: "map_of (packages c1') ''geometry'' = Some [(''a4paper'', PStr [])]" by simp
  have "map_sum id (\<lambda>r. map_of (packages (snd r)) ''geometry'')
          (TexEnvironment_build ex_midB None None) = Inr (Some [(''margin'', PStr ''1in'')])"
    by code_simp
  with b2 have p2: "map_of (packages c2') ''geometry'' = Some [(''margin'', PStr ''1in'')]" by simp
  from p1 p2 have ne: "map_of (packages c1') ''geometry'' \<noteq> map_of (packages c2') ''geometry''"
    by simp
  have last: "\<forall>d. Env d \<in> set [Text ''closing words''] \<longrightarrow> \<not> declares d ''geometry''"
    by simp
  from last_merged_package_wins [OF ok b bd d1 d2 b1 b2 ne last] p2
  have "map_of (packages e') ''geometry'' = Some [(''margin'', PStr ''1in'')]"
    and "length (filter (\<lambda>kv. fst kv = ''geometry'') (packages e')) = 1"
    by auto
  with ok bd d1 d2 own bb lf b b1 b2 p1 p2 show ?thesis by blast
qed

text \<open>
  Claim C3, as the code has it. With a non-empty \<open>options\<close> or \<open>kwoptions\<close>,
  \<open>build\<close> appends to the opening marker one bracketed list: the options joined by
  comma and space, then the keyword options as key=value joined the same way, with a
  comma and space between the two groups exactly when the joined options are not the
  empty text. With non-empty \<open>parameters\<close> it then appends one brace-delimited list of
  the parameters, and empty collections add nothing. Whenever \<open>options\<close> is not the
  single empty string (or there is no keyword option) the bracket holds the join of all
  the entries, options first.
\<close>

theorem TexEnvironment_build_opening_marker:
  assumes "head e = h # hs"
      and "TexObject_build (body e) (packages e) = Inr (tex, bd', pk')"
  shows "(\<exists>rest e'.
            TexEnvironment_build e None None =
              Inr (join newline
                     ((h
                       @ (if options e = [] \<and> kwoptions e = [] then []
                          else ''['' @ join '', '' (options e)
                                 @ (if join '', '' (options e) \<noteq> [] \<and> kwoptions e \<noteq> []
                                    then '', '' else [])
                                 @ join '', '' (map (\<lambda>(k, v). k @ ''='' @ py_str v) (kwoptions e))
                                 @ '']'')
                       @ (if parameters e = [] then []
                          else ''{'' @ join '', '' (parameters e) @ ''}''))
                      # rest), e'))
       \<and> (options e \<noteq> [[]] \<or> kwoptions e = [] \<longrightarrow>
            join '', '' (options e)
              @ (if join '', '' (options e) \<noteq> [] \<and> kwoptions e \<noteq> [] then '', '' else [])
              @ join '', '' (map (\<lambda>(k, v). k @ ''='' @ py_str v) (kwoptions e))
            = join '', '' (options e @ map (\<lambda>(k, v). k @ ''='' @ py_str v) (kwoptions e)))"
proof
  let ?h' = "h
      @ (if options e = [] \<and> kwoptions e = [] then []
         else ''['' @ join '', '' (options e)
                @ (if join '', '' (options e) \<noteq> [] \<and> kwoptions e \<noteq> [] then '', '' else [])
                @ join '', '' (map kwoption_text (kwoptions e)) @ '']'')
      @ (if parameters e = [] then [] else ''{'' @ join '', '' (parameters e) @ ''}'')"
  have h1: "head_options (options e) (kwoptions e) (head e)
              = Inr ((h @ (if options e = [] \<and> kwoptions e = [] then []
                 else ''['' @ join '', '' (options e)
                        @ (if join '', '' (options e) \<noteq> [] \<and> kwoptions e \<noteq> [] then '', '' else [])
                        @ join '', '' (map kwoption_text (kwoptions e)) @ '']'')) # hs)"
    by (simp only: assms(1) head_options_Cons)
  have h2: "head_parameters (parameters e)
              ((h @ (if options e = [] \<and> kwoptions e = [] then []
                 else ''['' @ join '', '' (options e)
                        @ (if join '', '' (options e) \<noteq> [] \<and> kwoptions e \<noteq> [] then '', '' else [])
                        @ join '', '' (map kwoption_text (kwoptions e)) @ '']'')) # hs)
              = Inr (?h' # hs)"
    by (simp only: head_parameters_Cons append_assoc)
  obtain ys tl1 where pl:
    "place_label (name e) (label e) (label_pos e) (?h' # hs) (tail e) = (?h' # ys, tl1)"
    using place_label_first by blast
  obtain rest where r: "assemble (?h' # ys) (join newline tex) tl1 = join newline (?h' # rest)"
    using assemble_first by blast
  from TexEnvironment_build_lines [OF h1 h2 pl assms(2)] r
  show "\<exists>rest e'.
            TexEnvironment_build e None None =
              Inr (join newline
                     ((h
                       @ (if options e = [] \<and> kwoptions e = [] then []
                          else ''['' @ join '', '' (options e)
                                 @ (if join '', '' (options e) \<noteq> [] \<and> kwoptions e \<noteq> []
                                    then '', '' else [])
                                 @ join '', '' (map (\<lambda>(k, v). k @ ''='' @ py_str v) (kwoptions e))
                                 @ '']'')
                       @ (if parameters e = [] then []
                          else ''{'' @ join '', '' (parameters e) @ ''}''))
                      # rest), e')"
    unfolding kwoption_text_lambda by auto
next
  show "options e \<noteq> [[]] \<or> kwoptions e = [] \<longrightarrow>
            join '', '' (options e)
              @ (if join '', '' (options e) \<noteq> [] \<and> kwoptions e \<noteq> [] then '', '' else [])
              @ join '', '' (map (\<lambda>(k, v). k @ ''='' @ py_str v) (kwoptions e))
            = join '', '' (options e @ map (\<lambda>(k, v). k @ ''='' @ py_str v) (kwoptions e))"
  proof (cases "options e = [] \<or> kwoptions e = []")
    case True
    then show ?thesis by auto
  next
    case False
    then show ?thesis
      by (auto simp: join_append join_options_eq_Nil)
  qed
qed

text \<open>
  The witness for C3: \<open>ex_figure\<close> has the options h! and t, the keyword option
  width=5cm and the parameters p and q.
\<close>

theorem TexEnvironment_build_opening_marker_witness:
  "head ex_figure = (backslash # ''begin{figure}'') # []
   \<and> TexObject_build (body ex_figure) (packages ex_figure) = Inr ([''hello''], [Text ''hello''], [])
   \<and> (\<exists>rest e'. TexEnvironment_build ex_figure None None =
          Inr (join newline ((backslash # ''begin{figure}[h!, t, width=5cm]{p, q}'') # rest), e'))
   \<and> join '', '' (options ex_figure @ map (\<lambda>(k, v). k @ ''='' @ py_str v) (kwoptions ex_figure))
        = ''h!, t, width=5cm''"
proof -
  have h: "head ex_figure = (backslash # ''begin{figure}'') # []" by code_simp
  have b: "TexObject_build (body ex_figure) (packages ex_figure) = Inr ([''hello''], [Text ''hello''], [])"
    by code_simp
  have o: "options ex_figure = [''h!'', ''t'']" by code_simp
  have k: "kwoptions ex_figure = [(''width'', PStr ''5cm'')]" by code_simp
  have p: "parameters ex_figure = [''p'', ''q'']" by code_simp
  from TexEnvironment_build_opening_marker [OF h b] h b
  show ?thesis by (simp add: o k p)
qed

text \<open>
  The counterexample to C3 as stated: \<open>ex_sole_empty_option\<close> has the options
  \<open>('',)\<close>, which is what \<open>options=''\<close> becomes in the constructor, and the keyword
  option width=5cm. Both collections are non-empty and the entries, options first, joined
  by comma and space give \<open>, width=5cm\<close>; the code tests the joined texts and writes
  \<open>[width=5cm]\<close>, with no separator between the groups.
\<close>

theorem sole_empty_option_counterexample:
  "options ex_sole_empty_option \<noteq> [] \<and> kwoptions ex_sole_empty_option \<noteq> []
   \<and> join '', '' (options ex_sole_empty_option
                    @ map (\<lambda>(k, v). k @ ''='' @ py_str v) (kwoptions ex_sole_empty_option))
        = '', width=5cm''
   \<and> map_sum id fst (TexEnvironment_build ex_sole_empty_option None None)
        = Inr (backslash # ''begin{axis}[width=5cm]'' @ newline @ backslash # ''end{axis}'')
   \<and> map_sum id fst (TexEnvironment_build ex_sole_empty_option None None)
        \<noteq> Inr (backslash # ''begin{axis}[, width=5cm]'' @ newline @ backslash # ''end{axis}'')"
  by code_simp

text \<open>
  Claim C4. When the joined contributions of the children are the empty string,
  \<open>build\<close> returns the head lines, one newline and the tail lines, with no line
  in between; otherwise the joined body stands between the head lines and the tail
  lines, one newline before it and one after it.
\<close>

theorem TexEnvironment_build_body_between:
  assumes "head_options (options e) (kwoptions e) (head e) = Inr head1"
      and "head_parameters (parameters e) head1 = Inr head2"
      and "place_label (name e) (label e) (label_pos e) head2 (tail e) = (head3, tail3)"
      and "head3 \<noteq> []" and "tail3 \<noteq> []"
      and "TexObject_build (body e) (packages e) = Inr (tex, bd', pk')"
  shows "\<exists>e'. TexEnvironment_build e None None =
           Inr (if join newline tex = []
                then join newline head3 @ newline @ join newline tail3
                else join newline head3 @ newline @ join newline tex
                       @ newline @ join newline tail3, e')"
proof -
  have "assemble head3 (join newline tex) tail3 =
          (if join newline tex = []
           then join newline head3 @ newline @ join newline tail3
           else join newline head3 @ newline @ join newline tex @ newline @ join newline tail3)"
    using assms(4,5) by (simp add: assemble_def join_append join_Cons)
  with TexEnvironment_build_lines [OF assms(1,2,3,6)] show ?thesis by simp
qed

text \<open>
  The witness for C4: \<open>ex_bottom\<close> has no child and renders as its opening marker, a
  newline, its label and its closing marker; \<open>ex_figure\<close> has the body hello.
\<close>

theorem TexEnvironment_build_body_between_witness:
  "(\<exists>e'. TexEnvironment_build ex_bottom None None =
      Inr (backslash # ''begin{table}'' @ newline
             @ backslash # ''label{table:tab1}'' @ newline @ backslash # ''end{table}'', e'))
   \<and> (\<exists>e'. TexEnvironment_build ex_figure None None =
      Inr (backslash # ''begin{figure}[h!, t, width=5cm]{p, q}'' @ newline
             @ backslash # ''label{figure:fig1}'' @ newline @ ''hello''
             @ newline @ backslash # ''end{figure}'', e'))"
proof -
  have a1: "head_options (options ex_bottom) (kwoptions ex_bottom) (head ex_bottom)
              = Inr [backslash # ''begin{table}'']" by code_simp
  have a2: "head_parameters (parameters ex_bottom) [backslash # ''begin{table}'']
              = Inr [backslash # ''begin{table}'']" by code_simp
  have a3: "place_label (name ex_bottom) (label ex_bottom) (label_pos ex_bottom)
              [backslash # ''begin{table}''] (tail ex_bottom)
              = ([backslash # ''begin{table}''],
                 [backslash # ''label{table:tab1}'', backslash # ''end{table}''])" by code_simp
  have a4: "[backslash # ''begin{table}''] \<noteq> []" by simp
  have a5: "[backslash # ''label{table:tab1}'', backslash # ''end{table}''] \<noteq> []" by simp
  have a6: "TexObject_build (body ex_bottom) (packages ex_bottom) = Inr ([], [], [])"
    by code_simp
  have b1: "head_options (options ex_figure) (kwoptions ex_figure) (head ex_figure)
              = Inr [backslash # ''begin{figure}[h!, t, width=5cm]'']" by code_simp
  have b2: "head_parameters (parameters ex_figure) [backslash # ''begin{figure}[h!, t, width=5cm]'']
              = Inr [backslash # ''begin{figure}[h!, t, width=5cm]{p, q}'']" by code_simp
  have b3: "place_label (name ex_figure) (label ex_figure) (label_pos ex_figure)
              [backslash # ''begin{figure}[h!, t, width=5cm]{p, q}''] (tail ex_figure)
              = ([backslash # ''begin{figure}[h!, t, width=5cm]{p, q}'',
                  backslash # ''label{figure:fig1}''],
                 [backslash # ''end{figure}''])" by code_simp
  have b4: "[backslash # ''begin{figure}[h!, t, width=5cm]{p, q}'',
             backslash # ''label{figure:fig1}''] \<noteq> []" by simp
  have b5: "[backslash # ''end{figure}''] \<noteq> []" by simp
  have b6: "TexObject_build (body ex_figure) (packages ex_figure)
              = Inr ([''hello''], [Text ''hello''], [])" by code_simp
  from TexEnvironment_build_body_between [OF a1 a2 a3 a4 a5 a6]
       TexEnvironment_build_body_between [OF b1 b2 b3 b4 b5 b6]
  show ?thesis by simp
qed

text \<open>
  Claim C5. For an environment whose decorated opening marker is the one line
  \<open>opening\<close> and whose tail is the one line \<open>closing\<close>: with a non-empty label and
  \<open>label_pos\<close> top, the label line comes right after the opening marker; with a
  non-empty label and any other \<open>label_pos\<close>, bottom among them, it comes right before the
  closing marker; with no label the lines are the opening marker, the body if it is not
  empty, and the closing marker.
\<close>

theorem TexEnvironment_build_label_position:
  assumes "head_options (options e) (kwoptions e) (head e) = Inr head1"
      and "head_parameters (parameters e) head1 = Inr [opening]"
      and "tail e = [closing]"
      and "TexObject_build (body e) (packages e) = Inr (tex, bd', pk')"
  shows "\<exists>e'. TexEnvironment_build e None None =
           Inr (join newline
                  (if label e = [] then
                     [opening] @ (if join newline tex = [] then [] else [join newline tex])
                       @ [closing]
                   else if label_pos e = ''top'' then
                     [opening, label_text (name e) (label e)]
                       @ (if join newline tex = [] then [] else [join newline tex])
                       @ [closing]
                   else
                     [opening] @ (if join newline tex = [] then [] else [join newline tex])
                       @ [label_text (name e) (label e), closing]), e')"
proof -
  obtain head3 tail3 where
    pl: "place_label (name e) (label e) (label_pos e) [opening] (tail e) = (head3, tail3)"
    by (cases "place_label (name e) (label e) (label_pos e) [opening] (tail e)") simp
  then have "assemble head3 (join newline tex) tail3 =
      join newline
        (if label e = [] then
           [opening] @ (if join newline tex = [] then [] else [join newline tex]) @ [closing]
         else if label_pos e = ''top'' then
           [opening, label_text (name e) (label e)]
             @ (if join newline tex = [] then [] else [join newline tex]) @ [closing]
         else
           [opening] @ (if join newline tex = [] then [] else [join newline tex])
             @ [label_text (name e) (label e), closing])"
    by (auto simp: place_label_def assemble_def assms(3) split: if_splits)
  with TexEnvironment_build_lines [OF assms(1,2) pl assms(4)] show ?thesis by simp
qed

text \<open>
  The witness for C5: the label of \<open>ex_figure\<close> is at the top, the label of
  \<open>ex_bottom\<close> at the bottom.
\<close>

theorem TexEnvironment_build_label_position_witness:
  "label ex_figure \<noteq> [] \<and> label_pos ex_figure = ''top''
   \<and> (\<exists>e'. TexEnvironment_build ex_figure None None =
         Inr (join newline
                [backslash # ''begin{figure}[h!, t, width=5cm]{p, q}'',
                 backslash # ''label{figure:fig1}'', ''hello'', backslash # ''end{figure}''], e'))
   \<and> label ex_bottom \<noteq> [] \<and> label_pos ex_bottom = ''bottom''
   \<and> (\<exists>e'. TexEnvironment_build ex_bottom None None =
         Inr (join newline
                [backslash # ''begin{table}'', backslash # ''label{table:tab1}'',
                 backslash # ''end{table}''], e'))"
proof -
  have a1: "head_options (options ex_bottom) (kwoptions ex_bottom) (head ex_bottom)
              = Inr [backslash # ''begin{table}'']" by code_simp
  have a2: "head_parameters (parameters ex_bottom) [backslash # ''begin{table}'']
              = Inr [backslash # ''begin{table}'']" by code_simp
  have a3: "tail ex_bottom = [backslash # ''end{table}'']" by code_simp
  have a4: "TexObject_build (body ex_bottom) (packages ex_bottom) = Inr ([], [], [])"
    by code_simp
  have a5: "label ex_bottom = ''tab1''" "label_pos ex_bottom = ''bottom''" "name ex_bottom = ''table''"
    by code_simp+
  have b1: "head_options (options ex_figure) (kwoptions ex_figure) (head ex_figure)
              = Inr [backslash # ''begin{figure}[h!, t, width=5cm]'']" by code_simp
  have b2: "head_parameters (parameters ex_figure) [backslash # ''begin{figure}[h!, t, width=5cm]'']
              = Inr [backslash # ''begin{figure}[h!, t, width=5cm]{p, q}'']" by code_simp
  have b3: "tail ex_figure = [backslash # ''end{figure}'']" by code_simp
  have b4: "TexObject_build (body ex_figure) (packages ex_figure)
              = Inr ([''hello''], [Text ''hello''], [])" by code_simp
  have b5: "label ex_figure = ''fig1''" "label_pos ex_figure = ''top''" "name ex_figure = ''figure''"
    by code_simp+
  from TexEnvironment_build_label_position [OF a1 a2 a3 a4]
       TexEnvironment_build_label_position [OF b1 b2 b3 b4]
  show ?thesis by (simp add: a5 b5 label_text_def)
qed

text \<open>
  Claim C9. \<open>TexEnvironment.build\<close> of tex\_base.py leaves the name, head, tail,
  parameters, options, keyword options and label of a node as they were (it merges
  packages, which the text does not depend on): when a build returns a text, a second
  build of the environment as the first one left it returns the same text.
\<close>

theorem TexEnvironment_build_twice_same_text:
  assumes "TexEnvironment_build e None None = Inr (out, e')"
  shows "(\<exists>e''. TexEnvironment_build e' None None = Inr (out, e''))
       \<and> name e' = name e \<and> head e' = head e \<and> tail e' = tail e
       \<and> parameters e' = parameters e \<and> options e' = options e
       \<and> kwoptions e' = kwoptions e \<and> label e' = label e \<and> label_pos e' = label_pos e"
proof -
  from assms have "\<exists>e''. TexEnvironment_build e' None None = Inr (out, e'')"
    using rebuild_aux(2) by blast
  moreover from assms
  have "name e' = name e \<and> head e' = head e \<and> tail e' = tail e
       \<and> parameters e' = parameters e \<and> options e' = options e
       \<and> kwoptions e' = kwoptions e \<and> label e' = label e \<and> label_pos e' = label_pos e"
    by (auto simp: TexEnvironment_build_unfold split: sum.splits prod.splits)
  ultimately show ?thesis by simp
qed

text \<open>The witness for C9: \<open>ex_parent\<close>, with its two children, built twice.\<close>

theorem TexEnvironment_build_twice_same_text_witness:
  "\<exists>out e' e''. TexEnvironment_build ex_parent None None = Inr (out, e')
     \<and> TexEnvironment_build e' None None = Inr (out, e'')
     \<and> out = join newline
         [backslash # ''begin{section}'',
          backslash # ''begin{figure}'', ''a'', backslash # ''end{figure}'',
          backslash # ''begin{table}'', ''b'', backslash # ''end{table}'',
          backslash # ''end{section}'']"
proof -
  have "heads_ok ex_parent" by code_simp
  then obtain out e' where b: "TexEnvironment_build ex_parent None None = Inr (out, e')"
    using build_total by blast
  have "map_sum id fst (TexEnvironment_build ex_parent None None) =
      Inr (join newline
         [backslash # ''begin{section}'',
          backslash # ''begin{figure}'', ''a'', backslash # ''end{figure}'',
          backslash # ''begin{table}'', ''b'', backslash # ''end{table}'',
          backslash # ''end{section}''])"
    by code_simp
  with b have o: "out = join newline
         [backslash # ''begin{section}'',
          backslash # ''begin{figure}'', ''a'', backslash # ''end{figure}'',
          backslash # ''begin{table}'', ''b'', backslash # ''end{table}'',
          backslash # ''end{section}'']" by simp
  from TexEnvironment_build_twice_same_text [OF b]
  obtain e'' where "TexEnvironment_build e' None None = Inr (out, e'')" by blast
  with b o show ?thesis by blast
qed

section \<open>Lemmas on document.py\<close>

lemma texts_build_loop: "texts ls = Some ss \<Longrightarrow> build_loop fmt ls = (ls, None)"
proof (induction ls arbitrary: ss)
  case Nil
  then show ?case by simp
next
  case (Cons l ls)
  then show ?case by (cases l) (auto split: option.splits)
qed

lemma texts_append_TextLine:
  "texts ls = Some ss \<Longrightarrow> texts (ls @ map TextLine xs) = Some (ss @ xs)"
proof (induction ls arbitrary: ss)
  case Nil
  show ?case using Nil by (induction xs) simp_all
next
  case (Cons l ls)
  then show ?case by (cases l) (auto split: option.splits)
qed

lemma Tabular_prepare_Items:
  "env_body e = Items ls \<Longrightarrow>
   Tabular_prepare fmt e td =
     (Environment (env_name e)
        (Items (ls @ map TextLine
           (table_lines (td\<lparr>data := map (map CStr) (map (map (format_cell fmt (float_format td))) (data td))\<rparr>)
              (map (map (format_cell fmt (float_format td))) (data td)))))
        (env_head e @ ''{'' @ replicate (snd (shape td)) CHR ''c'' @ ''}'' @ newline @ backslash # ''toprule'')
        (backslash # ''bottomrule'' @ newline @ env_tail e)
        (Tabular_cls (td\<lparr>data := map (map CStr) (map (map (format_cell fmt (float_format td))) (data td))\<rparr>)),
      None)"
  by (simp add: Tabular_prepare_def Let_def)



lemma Doc_TexEnvironment_build_unfold:
  "Doc_TexEnvironment_build fmt e =
     (case env_body e of
        Built s \<Rightarrow> (e, Some TypeError)
      | Items ls \<Rightarrow>
          (case build_loop fmt ls of
             (ls', Some err) \<Rightarrow>
               (Environment (env_name e) (Items ls') (env_head e) (env_tail e) (env_cls e), Some err)
           | (ls', None) \<Rightarrow>
               (case texts ls' of
                  None \<Rightarrow>
                    (Environment (env_name e)
                       (Items (TextLine (env_head e) # ls' @ [TextLine (env_tail e)]))
                       (env_head e) (env_tail e) (env_cls e), Some TypeError)
                | Some ss \<Rightarrow>
                    (Environment (env_name e)
                       (Built (join newline (env_head e # ss @ [env_tail e])))
                       (env_head e) (env_tail e) (env_cls e), None))))"
  by (cases e) (simp split: env_body.splits prod.splits option.splits)



text \<open>
  \<open>TexEnvironment.build\<close> of document.py never leaves the node as it found it: a build
  that returns has replaced the list \<open>body\<close> by the joined string, and a second call
  on that node raises TypeError.
\<close>

lemma Doc_TexEnvironment_build_once:
  assumes "Doc_TexEnvironment_build fmt e = (e', None)"
  shows "(\<exists>ls. env_body e = Items ls) \<and> (\<exists>t. env_body e' = Built t)
       \<and> Doc_TexEnvironment_build fmt e' = (e', Some TypeError)"
proof -
  from assms obtain t where t: "env_body e' = Built t" and ls: "\<exists>ls. env_body e = Items ls"
    by (auto simp: Doc_TexEnvironment_build_unfold
             split: env_body.splits prod.splits option.splits)
  from t have "Doc_TexEnvironment_build fmt e' = (e', Some TypeError)"
    by (simp add: Doc_TexEnvironment_build_unfold)
  with t ls show ?thesis by simp
qed

lemma Document_add_package_kwoptions:
  "kwopts \<noteq> [] \<Longrightarrow> Document_add_package d package opts kwopts = (d, Some AttributeError)"
  by (simp add: Document_add_package_def)

lemma Document_add_package_options:
  "Document_add_package d package opts [] =
     (d\<lparr>doc_packages :=
          AList.update package (if opts \<noteq> [] then ''['' @ join '','' opts @ '']'' else [])
            (doc_packages d)\<rparr>, None)"
  by (simp add: Document_add_package_def)

lemma TexObject_add_package_stores:
  "map_of (packages (TexObject_add_package e package opts kwopts)) package =
     Some (dict_update kwopts (fold (\<lambda>opt. AList.update opt (PStr [])) opts []))"
  by (simp add: TexObject_add_package_def update_conv')


lemma table_lines_no_rules:
  "rules td = [] \<Longrightarrow>
   table_lines td entries = map (\<lambda>row. join '' & '' row @ [backslash, backslash]) entries"
proof -
  assume r: "rules td = []"
  have "\<And>n. concat (map (\<lambda>(i, row). [join '' & '' row @ [backslash, backslash]]) (enumerate n entries))
          = map (\<lambda>row. join '' & '' row @ [backslash, backslash]) entries"
    by (induction entries) simp_all
  with r show ?thesis by (simp add: table_lines_def)
qed

lemma table_lines_data: "table_lines (td\<lparr>data := x\<rparr>) entries = table_lines td entries"
proof -
  have "(\<lambda>(i, row).
          (join '' & '' row @ [backslash, backslash])
            # (case map_of (rules (td\<lparr>data := x\<rparr>)) (int i) of
                 None \<Rightarrow> []
               | Some (start, stop, trim) \<Rightarrow>
                   [build_rule (snd (shape (td\<lparr>data := x\<rparr>))) start stop trim]))
      = (\<lambda>(i, row).
          (join '' & '' row @ [backslash, backslash])
            # (case map_of (rules td) (int i) of
                 None \<Rightarrow> []
               | Some (start, stop, trim) \<Rightarrow> [build_rule (snd (shape td)) start stop trim]))"
    by (auto simp: fun_eq_iff split: option.splits)
  then show ?thesis by (simp only: table_lines_def)
qed

lemma format_cell_case:
  "format_cell fmt ff v =
     (case v of
        CFloat x \<Rightarrow> fmt ff x
      | CInt i \<Rightarrow> str_int i
      | CStr s \<Rightarrow> s
      | CBool b \<Rightarrow> (if b then ''True'' else ''False'')
      | CNone \<Rightarrow> ''None'')"
  by (cases v) simp_all

lemma concat_enumerate_map:
  "concat (map F (enumerate n (map g rows))) =
   concat (map (\<lambda>(i, row). F (i, g row)) (enumerate n rows))"
  by (induction rows arbitrary: n) simp_all

lemma table_lines_rows:
  "table_lines td (map (map f) rows) =
     concat (map (\<lambda>(i, row).
        (join '' & '' (map f row) @ [backslash, backslash])
          # (case map_of (rules td) (int i) of
               None \<Rightarrow> []
             | Some (start, stop, trim) \<Rightarrow> [build_rule (snd (shape td)) start stop trim]))
       (enumerate 0 rows))"
  unfolding table_lines_def by (simp only: concat_enumerate_map prod.case)

section \<open>Claims on document.py\<close>




text \<open>
  Claim C6. \<open>set_margins\<close> stores as the option string of the package geometry the
  text top=T,bottom=B,margin=M, where M is the uniform value and T and B are the top
  and bottom arguments when they are given and M otherwise. The stored string does not
  depend on the string stored before, the other packages keep their entries, and
  geometry has one entry.
\<close>

theorem Document_set_margins_geometry:
  "map_of (doc_packages (Document_set_margins d m tp bt)) ''geometry'' =
     Some (''top='' @ (case tp of None \<Rightarrow> m | Some t \<Rightarrow> t)
             @ '',bottom='' @ (case bt of None \<Rightarrow> m | Some b \<Rightarrow> b)
             @ '',margin='' @ m)
   \<and> map_of (doc_packages (Document_set_margins d m None None)) ''geometry'' =
       Some (''top='' @ m @ '',bottom='' @ m @ '',margin='' @ m)
   \<and> map_of (doc_packages (Document_set_margins d ''2.5cm'' None None)) ''geometry'' =
       Some ''top=2.5cm,bottom=2.5cm,margin=2.5cm''
   \<and> (\<forall>k. k \<noteq> ''geometry'' \<longrightarrow>
         map_of (doc_packages (Document_set_margins d m tp bt)) k = map_of (doc_packages d) k)
   \<and> (distinct (map fst (doc_packages d)) \<longrightarrow>
         length (filter (\<lambda>kv. fst kv = ''geometry'')
                   (doc_packages (Document_set_margins d m tp bt))) = 1)"
proof -
  have g: "map_of (doc_packages (Document_set_margins d m tp bt)) ''geometry'' =
     Some (''top='' @ (case tp of None \<Rightarrow> m | Some t \<Rightarrow> t)
             @ '',bottom='' @ (case bt of None \<Rightarrow> m | Some b \<Rightarrow> b)
             @ '',margin='' @ m)" for d :: "'a document" and m tp bt
    by (cases tp; cases bt)
       (simp_all add: Document_set_margins_def Let_def update_conv' key_value_def)
  have o: "\<forall>k. k \<noteq> ''geometry'' \<longrightarrow>
         map_of (doc_packages (Document_set_margins d m tp bt)) k = map_of (doc_packages d) k"
    by (simp add: Document_set_margins_def Let_def update_conv')
  have e: "distinct (map fst (doc_packages d)) \<longrightarrow>
         length (filter (\<lambda>kv. fst kv = ''geometry'')
                   (doc_packages (Document_set_margins d m tp bt))) = 1"
  proof
    assume "distinct (map fst (doc_packages d))"
    then have "distinct (map fst (doc_packages (Document_set_margins d m tp bt)))"
      by (simp add: Document_set_margins_def Let_def distinct_update)
    then show "length (filter (\<lambda>kv. fst kv = ''geometry'')
                   (doc_packages (Document_set_margins d m tp bt))) = 1"
      using g [of d m tp bt] by (rule one_entry)
  qed
  from g [of d m tp bt] g [of d m None None] g [of d "''2.5cm''" None None] o e
  show ?thesis by simp
qed

text \<open>
  The witness for C6: on the document made by \<open>Document('Test', 'article')\<close>, whose
  geometry entry is top=2.5cm,bottom=2.5cm,margin=2.5cm, \<open>set_margins('1cm', top='3cm')\<close>
  replaces that string and leaves inputenc alone.
\<close>

theorem Document_set_margins_geometry_witness:
  "map_of (doc_packages (Document_init ''Test'' ''article'' [] [] :: pyfloat document)) ''geometry''
     = Some ''top=2.5cm,bottom=2.5cm,margin=2.5cm''
   \<and> distinct (map fst (doc_packages (Document_init ''Test'' ''article'' [] [] :: pyfloat document)))
   \<and> map_of (doc_packages
        (Document_set_margins (Document_init ''Test'' ''article'' [] [] :: pyfloat document)
           ''1cm'' (Some ''3cm'') None)) ''geometry''
       = Some ''top=3cm,bottom=1cm,margin=1cm''
   \<and> map_of (doc_packages
        (Document_set_margins (Document_init ''Test'' ''article'' [] [] :: pyfloat document)
           ''1cm'' (Some ''3cm'') None)) ''inputenc''
       = Some ''utf8''
   \<and> length (filter (\<lambda>kv. fst kv = ''geometry'')
        (doc_packages
          (Document_set_margins (Document_init ''Test'' ''article'' [] [] :: pyfloat document)
             ''1cm'' (Some ''3cm'') None))) = 1"
proof -
  have i: "map_of (doc_packages (Document_init ''Test'' ''article'' [] [] :: pyfloat document)) ''geometry''
     = Some ''top=2.5cm,bottom=2.5cm,margin=2.5cm''" by code_simp
  have d: "distinct (map fst (doc_packages (Document_init ''Test'' ''article'' [] [] :: pyfloat document)))"
    by code_simp
  have u: "map_of (doc_packages (Document_init ''Test'' ''article'' [] [] :: pyfloat document)) ''inputenc''
     = Some ''utf8''" by code_simp
  have n: "''inputenc'' \<noteq> ''geometry''" by simp
  from Document_set_margins_geometry
         [of "Document_init ''Test'' ''article'' [] [] :: pyfloat document"
             "''1cm''" "Some ''3cm''" None] i d u n
  show ?thesis by simp
qed



text \<open>
  Claim C8. \<open>Tabular.build\<close> on a tabular whose body holds strings only. Every float cell
  becomes \<open>fmt float_format value\<close>, the value formatted with the configured float
  format, and every other cell becomes its \<open>str\<close>: an integer its decimal digits, a
  string itself, a bool True or False, and None (what \<open>np.empty\<close> leaves in a cell
  that was never assigned) the text None. The built body is the extended head, the
  strings that were in the body, then for each row in row order its cell texts joined by
  space, ampersand, space and ended by two backslashes, followed by the rule of that row
  number if one is registered, then the extended tail. The grid afterwards holds the
  cell texts.
\<close>

theorem Tabular_build_rows:
  assumes "env_cls e = Tabular_cls td"
      and "env_body e = Items ls"
      and "texts ls = Some ss"
  shows "build_env fmt e =
           (Environment (env_name e)
              (Built (join newline
                 ((env_head e @ ''{'' @ replicate (snd (shape td)) CHR ''c'' @ ''}''
                     @ newline @ backslash # ''toprule'')
                  # (ss @ concat (map (\<lambda>(i, row).
                        (join '' & ''
                           (map (\<lambda>v. case v of
                                   CFloat x \<Rightarrow> fmt (float_format td) x
                                 | CInt i \<Rightarrow> str_int i
                                 | CStr s \<Rightarrow> s
                                 | CBool b \<Rightarrow> (if b then ''True'' else ''False'')
                                 | CNone \<Rightarrow> ''None'') row)
                           @ [backslash, backslash])
                        # (case map_of (rules td) (int i) of
                             None \<Rightarrow> []
                           | Some (start, stop, trim) \<Rightarrow>
                               [build_rule (snd (shape td)) start stop trim]))
                      (enumerate 0 (data td))))
                  @ [backslash # ''bottomrule'' @ newline @ env_tail e])))
              (env_head e @ ''{'' @ replicate (snd (shape td)) CHR ''c'' @ ''}''
                 @ newline @ backslash # ''toprule'')
              (backslash # ''bottomrule'' @ newline @ env_tail e)
              (Tabular_cls
                 (td\<lparr>data := map (map (\<lambda>v. CStr (case v of
                                   CFloat x \<Rightarrow> fmt (float_format td) x
                                 | CInt i \<Rightarrow> str_int i
                                 | CStr s \<Rightarrow> s
                                 | CBool b \<Rightarrow> (if b then ''True'' else ''False'')
                                 | CNone \<Rightarrow> ''None''))) (data td)\<rparr>)),
            None)
       \<and> (rules td = [] \<longrightarrow>
            env_body (fst (build_env fmt e)) =
              Built (join newline
                 ((env_head e @ ''{'' @ replicate (snd (shape td)) CHR ''c'' @ ''}''
                     @ newline @ backslash # ''toprule'')
                  # (ss @ map (\<lambda>row.
                        join '' & ''
                           (map (\<lambda>v. case v of
                                   CFloat x \<Rightarrow> fmt (float_format td) x
                                 | CInt i \<Rightarrow> str_int i
                                 | CStr s \<Rightarrow> s
                                 | CBool b \<Rightarrow> (if b then ''True'' else ''False'')
                                 | CNone \<Rightarrow> ''None'') row)
                           @ [backslash, backslash]) (data td))
                  @ [backslash # ''bottomrule'' @ newline @ env_tail e])))
       \<and> str_int 2 = ''2''"
proof -
  let ?f = "format_cell fmt (float_format td)"
  let ?entries = "map (map ?f) (data td)"
  let ?td' = "td\<lparr>data := map (map CStr) ?entries\<rparr>"
  let ?head' = "env_head e @ ''{'' @ replicate (snd (shape td)) CHR ''c'' @ ''}''
                  @ newline @ backslash # ''toprule''"
  let ?tail' = "backslash # ''bottomrule'' @ newline @ env_tail e"
  let ?e1 = "Environment (env_name e) (Items (ls @ map TextLine (table_lines ?td' ?entries)))
               ?head' ?tail' (Tabular_cls ?td')"
  have f: "?f = (\<lambda>v. case v of
                     CFloat x \<Rightarrow> fmt (float_format td) x
                   | CInt i \<Rightarrow> str_int i
                   | CStr s \<Rightarrow> s
                   | CBool b \<Rightarrow> (if b then ''True'' else ''False'')
                   | CNone \<Rightarrow> ''None'')"
    by (rule ext) (rule format_cell_case)
  have tl: "table_lines ?td' ?entries = table_lines td ?entries"
    by (rule table_lines_data)
  have p: "Tabular_prepare fmt e td = (?e1, None)"
    by (rule Tabular_prepare_Items [OF assms(2)])
  have t: "texts (ls @ map TextLine (table_lines ?td' ?entries))
             = Some (ss @ table_lines ?td' ?entries)"
    by (rule texts_append_TextLine [OF assms(3)])
  then have l: "build_loop fmt (ls @ map TextLine (table_lines ?td' ?entries))
             = (ls @ map TextLine (table_lines ?td' ?entries), None)"
    by (rule texts_build_loop)
  have "Doc_TexEnvironment_build fmt ?e1 =
          (Environment (env_name e)
             (Built (join newline (?head' # (ss @ table_lines ?td' ?entries) @ [?tail'])))
             ?head' ?tail' (Tabular_cls ?td'), None)"
    by (simp only: Doc_TexEnvironment_build.simps env_body.case l prod.case option.case t)
  then have "Tabular_build fmt e td =
          (Environment (env_name e)
             (Built (join newline (?head' # (ss @ table_lines td ?entries) @ [?tail'])))
             ?head' ?tail' (Tabular_cls ?td'), None)"
    by (simp only: Tabular_build.simps p prod.case option.case tl)
  then have b: "build_env fmt e =
          (Environment (env_name e)
             (Built (join newline (?head' # (ss @ table_lines td ?entries) @ [?tail'])))
             ?head' ?tail' (Tabular_cls ?td'), None)"
    by (simp only: build_env.simps assms(1) cls.case)
  have b': "build_env fmt e =
          (Environment (env_name e)
             (Built (join newline (?head' #
                (ss @ concat (map (\<lambda>(i, row).
                        (join '' & '' (map ?f row) @ [backslash, backslash])
                        # (case map_of (rules td) (int i) of
                             None \<Rightarrow> []
                           | Some (start, stop, trim) \<Rightarrow>
                               [build_rule (snd (shape td)) start stop trim]))
                      (enumerate 0 (data td)))) @ [?tail'])))
             ?head' ?tail' (Tabular_cls (td\<lparr>data := map (map (\<lambda>v. CStr (?f v))) (data td)\<rparr>)),
           None)"
    using b by (simp only: table_lines_rows map_map comp_def)
  have r: "rules td = [] \<longrightarrow>
            env_body (fst (build_env fmt e)) =
              Built (join newline (?head' #
                 (ss @ map (\<lambda>row. join '' & '' (map ?f row) @ [backslash, backslash]) (data td))
                 @ [?tail']))"
    using b by (simp add: table_lines_no_rules comp_def)
  have s: "str_int 2 = ''2''" by code_simp
  from b' r s show ?thesis unfolding f by blast
qed

text \<open>
  The witness for C8. The grid \<open>[[1.5, 2], ['A', 'B']]\<close> with the format \<open>.2f\<close>: the
  float 1.5 is written 1.50, the integer 2 is written 2, and the two rows follow the head
  in row order. And \<open>ex_tabular_ruled\<close>, with a text in the body, the cells None, True,
  -7 and -1.25 under the format \<open>.1f\<close>, and the rule on columns 1 to 3 after row 0.
\<close>

theorem Tabular_build_rows_witness:
  "env_cls ex_tabular = Tabular_cls ex_grid
   \<and> env_body ex_tabular = Items []
   \<and> texts ([] :: pyfloat line list) = Some []
   \<and> rules ex_grid = []
   \<and> snd (build_env ex_format ex_tabular) = None
   \<and> env_body (fst (build_env ex_format ex_tabular)) =
       Built (join newline
         [backslash # ''begin{tabular}{cc}'', backslash # ''toprule'',
          ''1.50 & 2'' @ [backslash, backslash],
          ''A & B'' @ [backslash, backslash],
          backslash # ''bottomrule'', backslash # ''end{tabular}''])
   \<and> env_cls ex_tabular_ruled = Tabular_cls ex_grid_ruled
   \<and> env_body ex_tabular_ruled = Items [TextLine ''% grid'']
   \<and> texts [TextLine ''% grid'' :: pyfloat line] = Some [''% grid'']
   \<and> snd (build_env ex_format ex_tabular_ruled) = None
   \<and> env_body (fst (build_env ex_format ex_tabular_ruled)) =
       Built (join newline
         [backslash # ''begin{tabular}{cccc}'', backslash # ''toprule'',
          ''% grid'',
          ''None & True & -7 & -1.2'' @ [backslash, backslash],
          backslash # ''cmidrule{2-3}'',
          backslash # ''bottomrule'', backslash # ''end{tabular}''])"
proof -
  have a1: "env_cls ex_tabular = Tabular_cls ex_grid" by (simp add: ex_tabular_def)
  have a2: "env_body ex_tabular = Items []" by (simp add: ex_tabular_def)
  have a3: "texts ([] :: pyfloat line list) = Some []" by simp
  have r: "rules ex_grid = []" by (simp add: ex_grid_def)
  have c1: "env_body (fst (build_env ex_format ex_tabular)) =
       Built (join newline
         [backslash # ''begin{tabular}{cc}'', backslash # ''toprule'',
          ''1.50 & 2'' @ [backslash, backslash],
          ''A & B'' @ [backslash, backslash],
          backslash # ''bottomrule'', backslash # ''end{tabular}''])"
    by code_simp
  have s1: "snd (build_env ex_format ex_tabular) = None"
    by (simp only: Tabular_build_rows [OF a1 a2 a3, of ex_format, THEN conjunct1] snd_conv)
  have b1: "env_cls ex_tabular_ruled = Tabular_cls ex_grid_ruled"
    by (simp add: ex_tabular_ruled_def)
  have b2: "env_body ex_tabular_ruled = Items [TextLine ''% grid'']"
    by (simp add: ex_tabular_ruled_def)
  have b3: "texts [TextLine ''% grid'' :: pyfloat line] = Some [''% grid'']" by simp
  have c2: "env_body (fst (build_env ex_format ex_tabular_ruled)) =
       Built (join newline
         [backslash # ''begin{tabular}{cccc}'', backslash # ''toprule'',
          ''% grid'',
          ''None & True & -7 & -1.2'' @ [backslash, backslash],
          backslash # ''cmidrule{2-3}'',
          backslash # ''bottomrule'', backslash # ''end{tabular}''])"
    by code_simp
  have s2: "snd (build_env ex_format ex_tabular_ruled) = None"
    by (simp only: Tabular_build_rows [OF b1 b2 b3, of ex_format, THEN conjunct1] snd_conv)
  from a1 a2 a3 r c1 s1 b1 b2 b3 c2 s2 show ?thesis by blast
qed

text \<open>
  Claim C10 fails on \<open>Document.add_package\<close>. The call
  \<open>add_package('hyperref', colorlinks='true')\<close> on a Document raises AttributeError and
  stores no entry for hyperref, because the loop over the keyword options appends to
  \<open>options\<close> after it has been turned into a string. The same call on a TexObject of
  tex\_base.py returns and stores the entry.
\<close>

theorem Document_add_package_keyword_option_raises:
  "Document_add_package ex_document ''hyperref'' [] [(''colorlinks'', PStr ''true'')]
     = (ex_document, Some AttributeError)
   \<and> map_of (doc_packages (fst (Document_add_package ex_document ''hyperref'' []
                [(''colorlinks'', PStr ''true'')]))) ''hyperref'' = None
   \<and> map_of (packages (TexObject_add_package ex_bottom ''hyperref'' []
                [(''colorlinks'', PStr ''true'')])) ''hyperref''
       = Some [(''colorlinks'', PStr ''true'')]"
proof -
  have 1: "Document_add_package ex_document ''hyperref'' [] [(''colorlinks'', PStr ''true'')]
     = (ex_document, Some AttributeError)"
    by (simp add: Document_add_package_kwoptions)
  have 2: "map_of (doc_packages ex_document) ''hyperref'' = None" by code_simp
  have 3: "map_of (packages (TexObject_add_package ex_bottom ''hyperref'' []
                [(''colorlinks'', PStr ''true'')])) ''hyperref''
       = Some [(''colorlinks'', PStr ''true'')]"
    by code_simp
  from 1 2 3 show ?thesis by simp
qed

end
